theory Spec2Isabelle
  imports Main "HOL-Library.Word" "HOL-Library.AList"
begin

section \<open>Python values\<close>

text \<open>
  The program handles values decoded from JSON (\<^verbatim>\<open>response.json()\<close>, \<^verbatim>\<open>json.load\<close>) and
  builds dictionaries of the same kind as its results. \<open>JNull\<close> is Python's \<^verbatim>\<open>None\<close>;
  \<open>JObj\<close> holds the items of a \<^verbatim>\<open>dict\<close> in insertion order. A \<open>string\<close> stands for a
  Python \<^verbatim>\<open>str\<close> as the bytes of its UTF-8 form, a lone surrogate code point (which
  \<^verbatim>\<open>json.loads\<close> builds from an escape such as \<^verbatim>\<open>\ud800\<close>) as the three bytes \<^verbatim>\<open>ED A0..BF xx\<close>.
  Equality, concatenation and the substring test are applied to it, and the test whether
  it can be written to a UTF-8 file.
  JSON numbers with a fraction or an exponent (Python floats) are not modelled.
\<close>

datatype json =
    JNull
  | JBool bool
  | JInt int
  | JStr string
  | JArr "json list"
  | JObj "(string \<times> json) list"

text \<open>The exceptions the modelled operations raise; \<open>Inl\<close> of a sum is a raised exception.\<close>

datatype exn =
    JSONDecodeError
  | AttributeError
  | TypeError
  | KeyError
  | IndexError
  | UnicodeEncodeError

definition py_bind :: "exn + 'a \<Rightarrow> ('a \<Rightarrow> exn + 'b) \<Rightarrow> exn + 'b" where
  "py_bind m f = (case m of Inl e \<Rightarrow> Inl e | Inr v \<Rightarrow> f v)"

text \<open>\<^verbatim>\<open>d.get(k, default)\<close>: only a dict has the method.\<close>

fun py_get :: "json \<Rightarrow> string \<Rightarrow> json \<Rightarrow> exn + json" where
  "py_get (JObj kvs) k d = Inr (case map_of kvs k of None \<Rightarrow> d | Some v \<Rightarrow> v)"
| "py_get _ k d = Inl AttributeError"

text \<open>\<^verbatim>\<open>d[k]\<close> with a string key.\<close>

fun py_index :: "json \<Rightarrow> string \<Rightarrow> exn + json" where
  "py_index (JObj kvs) k = (case map_of kvs k of None \<Rightarrow> Inl KeyError | Some v \<Rightarrow> Inr v)"
| "py_index _ k = Inl TypeError"

fun starts_with :: "string \<Rightarrow> string \<Rightarrow> bool" where
  "starts_with [] s = True"
| "starts_with (c # cs) [] = False"
| "starts_with (c # cs) (x # xs) = (c = x \<and> starts_with cs xs)"

fun is_substring :: "string \<Rightarrow> string \<Rightarrow> bool" where
  "is_substring k [] = (k = [])"
| "is_substring k (x # xs) = (starts_with k (x # xs) \<or> is_substring k xs)"

text \<open>\<^verbatim>\<open>k in v\<close> for a string \<open>k\<close>: key of a dict, element of a list, substring of a string.\<close>

fun py_in :: "string \<Rightarrow> json \<Rightarrow> exn + bool" where
  "py_in k (JObj kvs) = Inr (map_of kvs k \<noteq> None)"
| "py_in k (JArr xs) = Inr (JStr k \<in> set xs)"
| "py_in k (JStr s) = Inr (is_substring k s)"
| "py_in k _ = Inl TypeError"

text \<open>Truth value of a Python object (\<^verbatim>\<open>not x\<close>, \<^verbatim>\<open>if x\<close>).\<close>

fun py_truthy :: "json \<Rightarrow> bool" where
  "py_truthy JNull = False"
| "py_truthy (JBool b) = b"
| "py_truthy (JInt i) = (i \<noteq> 0)"
| "py_truthy (JStr s) = (s \<noteq> [])"
| "py_truthy (JArr xs) = (xs \<noteq> [])"
| "py_truthy (JObj kvs) = (kvs \<noteq> [])"

text \<open>\<^verbatim>\<open>str(n)\<close> of an integer, as an f-string renders it.\<close>

definition digit_char :: "nat \<Rightarrow> char" where
  "digit_char d = char_of (48 + d)"

function digits_of :: "nat \<Rightarrow> string" where
  "digits_of n = (if n < 10 then [digit_char n] else digits_of (n div 10) @ [digit_char (n mod 10)])"
  by pat_completeness auto
termination
  by (relation "measure id") auto

declare digits_of.simps [simp del]

definition str_int :: "int \<Rightarrow> string" where
  "str_int i = (if i < 0 then CHR ''-'' # digits_of (nat (- i)) else digits_of (nat i))"

text \<open>
  \<^verbatim>\<open>str(v)\<close> inside an f-string. The text of a list or a dict is Python's \<^verbatim>\<open>repr\<close>,
  which is taken as the parameter \<open>py_repr\<close>.
\<close>

fun py_str :: "(json \<Rightarrow> string) \<Rightarrow> json \<Rightarrow> string" where
  "py_str py_repr (JStr s) = s"
| "py_str py_repr JNull = ''None''"
| "py_str py_repr (JBool b) = (if b then ''True'' else ''False'')"
| "py_str py_repr (JInt i) = str_int i"
| "py_str py_repr v = py_repr v"

section \<open>HTTP responses\<close>

text \<open>
  What the program reads of a \<^verbatim>\<open>requests.Response\<close>: the status code, the body text, and
  the value \<^verbatim>\<open>response.json()\<close> decodes (\<open>None\<close> when the body is not JSON and the call
  raises). Every request is answered: exceptions raised inside the HTTP library are
  outside the model. Console output (\<^verbatim>\<open>print\<close>) is not modelled.
\<close>

record response =
  status_code :: int
  body_text :: string
  body_json :: "json option"

definition resp_json :: "response \<Rightarrow> exn + json" where
  "resp_json r = (case body_json r of None \<Rightarrow> Inl JSONDecodeError | Some j \<Rightarrow> Inr j)"

section \<open>Direct-post upload: \<^verbatim>\<open>upload_video_direct\<close>\<close>

text \<open>
  The caption is sliced (\<^verbatim>\<open>caption[:150]\<close>), which counts code points: it is the list
  of its code points.
\<close>

type_synonym codepoints = "nat list"

record post_info =
  title :: codepoints
  privacy_level :: string
  disable_duet :: bool
  disable_comment :: bool
  disable_stitch :: bool
  video_cover_timestamp_ms :: nat

record source_info =
  source :: string
  video_size :: nat
  chunk_size :: nat
  total_chunk_count :: nat

record init_payload =
  post_info :: post_info
  source_info :: source_info

text \<open>The requests and waits of one call, in the order they happen.\<close>

datatype upload_event =
    PostInit string init_payload
  | ReadVideo string
  | PutVideo json string
  | PostStatus string json
  | Sleep nat

text \<open>
  The environment of one call: the file system (\<^verbatim>\<open>Path.exists\<close>, \<^verbatim>\<open>stat().st_size\<close>) and
  the provider's answers to the init request, to the PUT, and to the status fetch
  number \<open>i\<close> (counted from 0).
\<close>

record upload_world =
  video_exists :: "string \<Rightarrow> bool"
  st_size :: "string \<Rightarrow> nat"
  init_reply :: response
  upload_reply :: response
  status_reply :: "nat \<Rightarrow> response"

type_synonym result = "(string \<times> json) list"

datatype flow = Break result | Next nat

text \<open>
  The body of the \<^verbatim>\<open>for i in range(10)\<close> loop after the status fetch has been answered:
  \<open>Break r\<close> is \<^verbatim>\<open>return r\<close>, \<open>Next s\<close> is \<^verbatim>\<open>time.sleep(s)\<close> followed by the next iteration.
\<close>

definition poll_body :: "(json \<Rightarrow> string) \<Rightarrow> response \<Rightarrow> json \<Rightarrow> exn + flow" where
  "poll_body py_repr status_response publish_id =
     (if status_code status_response = 200 then
        py_bind (resp_json status_response) (\<lambda>status_data.
        py_bind (py_get status_data ''data'' (JObj [])) (\<lambda>d.
        py_bind (py_get d ''status'' JNull) (\<lambda>publish_status.
          if publish_status = JStr ''PUBLISH_COMPLETE'' then
            Inr (Break [(''success'', JBool True), (''publish_id'', publish_id),
                        (''status'', publish_status)])
          else if publish_status = JStr ''FAILED'' then
            py_bind (py_get status_data ''data'' (JObj [])) (\<lambda>d'.
            py_bind (py_get d' ''fail_reason'' (JStr ''Unknown'')) (\<lambda>fail_reason.
              Inr (Break [(''success'', JBool False),
                          (''error'', JStr (''Publish failed: '' @ py_str py_repr fail_reason)),
                          (''publish_id'', publish_id)])))
          else if publish_status \<in> set [JStr ''PROCESSING_UPLOAD'', JStr ''PROCESSING_DOWNLOAD'',
                                      JStr ''SENDING_TO_USER_INBOX''] then
            Inr (Next 3)
          else Inr (Next 2))))
      else Inr (Next 2))"

text \<open>
  The loop itself, \<open>n\<close> iterations from index \<open>i\<close> on. \<open>None\<close> is the loop running out
  of iterations; \<open>Some\<close> is a \<^verbatim>\<open>return\<close> or an exception leaving it.
\<close>

fun poll_loop :: "(json \<Rightarrow> string) \<Rightarrow> (nat \<Rightarrow> response) \<Rightarrow> string \<Rightarrow> json \<Rightarrow> nat \<Rightarrow> nat
    \<Rightarrow> (exn + result) option \<times> upload_event list" where
  "poll_loop py_repr reply access_token publish_id i 0 = (None, [])"
| "poll_loop py_repr reply access_token publish_id i (Suc n) =
     (case poll_body py_repr (reply i) publish_id of
        Inl e \<Rightarrow> (Some (Inl e), [PostStatus access_token publish_id])
      | Inr (Break r) \<Rightarrow> (Some (Inr r), [PostStatus access_token publish_id])
      | Inr (Next s) \<Rightarrow>
          (case poll_loop py_repr reply access_token publish_id (Suc i) n of
             (out, tr) \<Rightarrow> (out, PostStatus access_token publish_id # Sleep s # tr)))"

definition content_range :: "nat \<Rightarrow> string" where
  "content_range file_size =
     ''bytes 0-'' @ str_int (int file_size - 1) @ ''/'' @ str_int (int file_size)"

definition make_init_payload :: "codepoints \<Rightarrow> string \<Rightarrow> nat \<Rightarrow> init_payload" where
  "make_init_payload caption privacy file_size =
     \<lparr> post_info = \<lparr> title = take 150 caption, privacy_level = privacy,
                     disable_duet = False, disable_comment = False, disable_stitch = False,
                     video_cover_timestamp_ms = 1000 \<rparr>,
       source_info = \<lparr> source = ''FILE_UPLOAD'', video_size = file_size,
                       chunk_size = min file_size (10 * 1024 * 1024),
                       total_chunk_count = 1 \<rparr> \<rparr>"

text \<open>Step 3 of the function: the poll loop and the \<^verbatim>\<open>return\<close> after it.\<close>

definition check_publish_status :: "(json \<Rightarrow> string) \<Rightarrow> upload_world \<Rightarrow> string \<Rightarrow> json
    \<Rightarrow> (exn + result) \<times> upload_event list" where
  "check_publish_status py_repr w access_token publish_id =
     (case poll_loop py_repr (status_reply w) access_token publish_id 0 10 of
        (Some out, tr) \<Rightarrow> (out, tr)
      | (None, tr) \<Rightarrow>
          (Inr [(''success'', JBool True), (''publish_id'', publish_id),
                (''status'', JStr ''PROCESSING''),
                (''note'', JStr ''Video is being processed by TikTok'')], tr))"

text \<open>Step 2: read the file and PUT it; on 200 or 201 go on to step 3.\<close>

definition upload_video_file :: "(json \<Rightarrow> string) \<Rightarrow> upload_world \<Rightarrow> string \<Rightarrow> string \<Rightarrow> json
    \<Rightarrow> json \<Rightarrow> (exn + result) \<times> upload_event list" where
  "upload_video_file py_repr w video_path access_token upload_url publish_id =
     (let tr = [ReadVideo video_path, PutVideo upload_url (content_range (st_size w video_path))];
          upload_response = upload_reply w
      in if status_code upload_response \<notin> set [200, 201] then
           (Inr [(''success'', JBool False),
                 (''error'', JStr (''Upload failed: '' @ str_int (status_code upload_response))),
                 (''details'', JStr (body_text upload_response))], tr)
         else (case check_publish_status py_repr w access_token publish_id of
                 (out, tr') \<Rightarrow> (out, tr @ tr')))"

text \<open>
  What the function does with the init response: a \<^verbatim>\<open>return\<close> of a failure (\<open>Inr (Inl r)\<close>),
  or the pair \<open>(upload_url, publish_id)\<close> with which step 2 starts.
\<close>

definition read_init_response :: "response \<Rightarrow> exn + (result + json \<times> json)" where
  "read_init_response init_response =
     (if status_code init_response \<noteq> 200 then
        py_bind (if body_text init_response \<noteq> [] then resp_json init_response else Inr (JObj []))
          (\<lambda>error_data.
            Inr (Inl [(''success'', JBool False),
                      (''error'', JStr (''Init failed: '' @ str_int (status_code init_response))),
                      (''details'', error_data)]))
      else
        py_bind (resp_json init_response) (\<lambda>init_data.
        py_bind (py_bind (py_in ''error'' init_data) (\<lambda>has_error.
                   if has_error then
                     py_bind (py_index init_data ''error'') (\<lambda>err.
                     py_bind (py_get err ''code'' JNull) (\<lambda>code. Inr (code \<noteq> JStr ''ok'')))
                   else Inr False)) (\<lambda>embedded_error.
          if embedded_error then
            py_bind (py_index init_data ''error'') (\<lambda>err.
            py_bind (py_get err ''message'' (JStr ''Unknown error'')) (\<lambda>message.
              Inr (Inl [(''success'', JBool False), (''error'', message),
                        (''details'', init_data)])))
          else
            py_bind (py_get init_data ''data'' (JObj [])) (\<lambda>d.
            py_bind (py_get d ''upload_url'' JNull) (\<lambda>upload_url.
            py_bind (py_get init_data ''data'' (JObj [])) (\<lambda>d'.
            py_bind (py_get d' ''publish_id'' JNull) (\<lambda>publish_id.
              if \<not> py_truthy upload_url then
                Inr (Inl [(''success'', JBool False), (''error'', JStr ''No upload URL received''),
                          (''details'', init_data)])
              else Inr (Inr (upload_url, publish_id)))))))))"

text \<open>
  The whole function. The result is what the call returns or raises, with the list of
  requests and waits it made. \<open>is_sandbox\<close> only changes what is printed.
\<close>

definition upload_video_direct :: "(json \<Rightarrow> string) \<Rightarrow> upload_world \<Rightarrow> string \<Rightarrow> codepoints \<Rightarrow> string
    \<Rightarrow> string \<Rightarrow> bool \<Rightarrow> (exn + result) \<times> upload_event list" where
  "upload_video_direct py_repr w video_path caption access_token privacy is_sandbox =
     (if \<not> video_exists w video_path then
        (Inr [(''success'', JBool False), (''error'', JStr ''Video file not found'')], [])
      else
        let file_size = st_size w video_path;
            payload = make_init_payload caption privacy file_size;
            tr = [PostInit access_token payload]
        in case read_init_response (init_reply w) of
             Inl e \<Rightarrow> (Inl e, tr)
           | Inr (Inl failure) \<Rightarrow> (Inr failure, tr)
           | Inr (Inr (upload_url, publish_id)) \<Rightarrow>
               (case upload_video_file py_repr w video_path access_token upload_url publish_id of
                  (out, tr') \<Rightarrow> (out, tr @ tr')))"

fun is_status_fetch :: "upload_event \<Rightarrow> bool" where
  "is_status_fetch (PostStatus t p) = True"
| "is_status_fetch _ = False"

fun is_sleep :: "upload_event \<Rightarrow> bool" where
  "is_sleep (Sleep s) = True"
| "is_sleep _ = False"

text \<open>
  What one iteration reads of a status response (the two \<^verbatim>\<open>.get\<close> chains of the loop
  body), and when a status read is terminal.
\<close>

definition reported_status :: "response \<Rightarrow> exn + json" where
  "reported_status r =
     py_bind (resp_json r) (\<lambda>status_data.
     py_bind (py_get status_data ''data'' (JObj [])) (\<lambda>d. py_get d ''status'' JNull))"

definition reported_fail_reason :: "response \<Rightarrow> exn + json" where
  "reported_fail_reason r =
     py_bind (resp_json r) (\<lambda>status_data.
     py_bind (py_get status_data ''data'' (JObj [])) (\<lambda>d.
       py_get d ''fail_reason'' (JStr ''Unknown'')))"

definition terminal :: "json \<Rightarrow> bool" where
  "terminal s = (s = JStr ''PUBLISH_COMPLETE'' \<or> s = JStr ''FAILED'')"

text \<open>
  An iteration that goes on to the next one: the transport failed (status code other than
  200), or a status was read and is not terminal. An answer of 200 from which no status can
  be read is not of this kind: there the code raises.
\<close>

definition no_terminal_seen :: "response \<Rightarrow> bool" where
  "no_terminal_seen r =
     (if status_code r = 200
      then (case reported_status r of Inl e \<Rightarrow> False | Inr s \<Rightarrow> \<not> terminal s)
      else True)"

text \<open>Concrete provider answers and a concrete environment, for the examples below.\<close>

definition init_accepted :: response where
  "init_accepted =
     \<lparr> status_code = 200, body_text = ''{data: ...}'',
       body_json = Some (JObj [(''data'', JObj [(''upload_url'', JStr ''https://x''),
                                               (''publish_id'', JStr ''p1'')]),
                               (''error'', JObj [(''code'', JStr ''ok''),
                                                (''message'', JStr [])])]) \<rparr>"

definition init_rejected :: "int \<Rightarrow> response" where
  "init_rejected code =
     \<lparr> status_code = code, body_text = ''{error: ...}'',
       body_json = Some (JObj [(''error'',
                     JObj [(''code'', JStr ''invalid_params''),
                           (''message'', JStr ''The request parameters are invalid'')])]) \<rparr>"

definition status_with :: "string \<Rightarrow> response" where
  "status_with s =
     \<lparr> status_code = 200, body_text = ''{data: ...}'',
       body_json = Some (JObj [(''data'', JObj [(''status'', JStr s),
                                (''fail_reason'', JStr ''file_format_check_failed'')])]) \<rparr>"

definition example_world :: upload_world where
  "example_world =
     \<lparr> video_exists = (\<lambda>p. True), st_size = (\<lambda>p. 2048), init_reply = init_accepted,
       upload_reply = \<lparr> status_code = 201, body_text = [], body_json = None \<rparr>,
       status_reply = (\<lambda>i. status_with ''PROCESSING_UPLOAD'') \<rparr>"

definition failing_at :: "nat \<Rightarrow> upload_world" where
  "failing_at k =
     example_world \<lparr> status_reply :=
       (\<lambda>i. if i = k then status_with ''FAILED'' else status_with ''PROCESSING_UPLOAD'') \<rparr>"

section \<open>PKCE: \<^verbatim>\<open>generate_pkce\<close>\<close>

text \<open>
  The functions of Python's standard library that the program calls on strings and bytes.
  \<^verbatim>\<open>base64.urlsafe_b64encode\<close> is the encoding of RFC 4648, section 5, with \<^verbatim>\<open>=\<close> padding;
  \<^verbatim>\<open>secrets.token_urlsafe(n)\<close> is that encoding of \<open>n\<close> random bytes with the padding
  stripped; \<^verbatim>\<open>str.rstrip(c)\<close> removes every trailing \<open>c\<close>; \<^verbatim>\<open>str.encode('ascii')\<close> raises on a
  character above 127. The random source is the environment's: \<open>entropy i\<close> is the \<open>i\<close>-th
  byte it delivers.
\<close>

type_synonym byte = "8 word"

definition b64url_alphabet :: string where
  "b64url_alphabet = ''ABCDEFGHIJKLMNOPQRSTUVWXYZabcdefghijklmnopqrstuvwxyz0123456789-_''"

definition sextet_char :: "nat \<Rightarrow> char" where
  "sextet_char n = b64url_alphabet ! n"

fun urlsafe_b64encode :: "byte list \<Rightarrow> string" where
  "urlsafe_b64encode [] = []"
| "urlsafe_b64encode [a] =
     [sextet_char (unat a div 4), sextet_char (unat a mod 4 * 16), CHR ''='', CHR ''='']"
| "urlsafe_b64encode [a, b] =
     [sextet_char (unat a div 4), sextet_char (unat a mod 4 * 16 + unat b div 16),
      sextet_char (unat b mod 16 * 4), CHR ''='']"
| "urlsafe_b64encode (a # b # c # rest) =
     [sextet_char (unat a div 4), sextet_char (unat a mod 4 * 16 + unat b div 16),
      sextet_char (unat b mod 16 * 4 + unat c div 64), sextet_char (unat c mod 64)]
     @ urlsafe_b64encode rest"

definition rstrip :: "char \<Rightarrow> string \<Rightarrow> string" where
  "rstrip c s = rev (dropWhile (\<lambda>x. x = c) (rev s))"

definition token_bytes :: "(nat \<Rightarrow> byte) \<Rightarrow> nat \<Rightarrow> byte list" where
  "token_bytes entropy n = map entropy [0..<n]"

definition token_urlsafe :: "(nat \<Rightarrow> byte) \<Rightarrow> nat \<Rightarrow> string" where
  "token_urlsafe entropy n = rstrip CHR ''='' (urlsafe_b64encode (token_bytes entropy n))"

definition encode_ascii :: "string \<Rightarrow> exn + byte list" where
  "encode_ascii s =
     (if list_all (\<lambda>c. (of_char c :: nat) < 128) s then Inr (map of_char s)
      else Inl UnicodeEncodeError)"

text \<open>
  \<^verbatim>\<open>hashlib.sha256\<close> is not defined here: it is the parameter \<open>sha256\<close>. The function assigns
  the global \<^verbatim>\<open>_code_verifier\<close> and returns the challenge: the model returns the new global
  with what the call returns or raises.
\<close>

definition generate_pkce :: "(byte list \<Rightarrow> byte list) \<Rightarrow> (nat \<Rightarrow> byte) \<Rightarrow> string \<times> (exn + string)" where
  "generate_pkce sha256 entropy =
     (let code_verifier = take 128 (token_urlsafe entropy 64) in
      (code_verifier,
       py_bind (encode_ascii code_verifier) (\<lambda>verifier_bytes.
         let digest = sha256 verifier_bytes;
             code_challenge = rstrip CHR ''='' (urlsafe_b64encode digest)
         in Inr code_challenge)))"

section \<open>OAuth: the callback handler and \<^verbatim>\<open>authenticate\<close>\<close>

text \<open>
  \<^verbatim>\<open>urllib.parse.urlparse\<close>, \<^verbatim>\<open>urllib.parse.parse_qs\<close> and \<^verbatim>\<open>hashlib.sha256\<close> are standard
  library functions the model does not define: they are the fields of the parameter
  \<open>lib\<close>. Of a parsed URL the handler reads the path and the query; \<^verbatim>\<open>parse_qs\<close> returns a
  dict from names to lists of values.
\<close>

record parse_result =
  url_path :: string
  url_query :: string

record stdlib =
  sha256 :: "byte list \<Rightarrow> byte list"
  urlparse :: "string \<Rightarrow> parse_result"
  parse_qs :: "string \<Rightarrow> (string \<times> string list) list"

text \<open>The two attributes of \<^verbatim>\<open>OAuthHTTPServer\<close>: the authorization session.\<close>

record oauth_server =
  auth_code :: "string option"
  error :: "string option"

text \<open>
  What the handler sends back: the status of \<^verbatim>\<open>send_response\<close>, the headers of its
  \<^verbatim>\<open>send_header\<close> calls, and which of the two HTML pages it writes.
\<close>

datatype page = SuccessPage | ErrorPage string

record http_reply =
  reply_status :: nat
  reply_headers :: "(string \<times> string) list"
  reply_page :: "page option"

text \<open>
  \<^verbatim>\<open>CallbackHandler.do_GET\<close> on a request for \<open>path\<close>. The result is the server object after
  the call, with the reply sent or the exception raised (\<^verbatim>\<open>xs[0]\<close> on an empty list).
\<close>

definition do_GET :: "stdlib \<Rightarrow> oauth_server \<Rightarrow> string \<Rightarrow> oauth_server \<times> (exn + http_reply)" where
  "do_GET lib server path =
     (let parsed = urlparse lib path in
      if url_path parsed = ''/callback'' then
        let params = parse_qs lib (url_query parsed) in
        (case map_of params ''code'' of
           Some codes \<Rightarrow>
             (case codes of
                [] \<Rightarrow> (server, Inl IndexError)
              | c # cs \<Rightarrow>
                  (server \<lparr> auth_code := Some c \<rparr>,
                   Inr \<lparr> reply_status = 200,
                         reply_headers = [(''Content-type'', ''text/html; charset=utf-8'')],
                         reply_page = Some SuccessPage \<rparr>))
         | None \<Rightarrow>
             (case (case map_of params ''error'' of None \<Rightarrow> [''unknown''] | Some es \<Rightarrow> es) of
                [] \<Rightarrow> (server \<lparr> auth_code := None \<rparr>, Inl IndexError)
              | e # es \<Rightarrow>
                  (server \<lparr> auth_code := None, error := Some e \<rparr>,
                   Inr \<lparr> reply_status = 400,
                         reply_headers = [(''Content-type'', ''text/html; charset=utf-8'')],
                         reply_page = Some (ErrorPage e) \<rparr>)))
      else (server, Inr \<lparr> reply_status = 404, reply_headers = [], reply_page = None \<rparr>))"

text \<open>
  What \<^verbatim>\<open>authenticate\<close> and \<^verbatim>\<open>refresh_access_token\<close> do to the outside, in order.
  \<open>SaveTokens t\<close> is the call \<^verbatim>\<open>save_tokens(t)\<close>, whether its write succeeds or not.
\<close>

datatype auth_event =
    Bind bool
  | OpenBrowser "(string \<times> string) list"
  | Handled string "exn + http_reply"
  | ServerClose
  | PostToken "(string \<times> json) list"
  | SaveTokens json

text \<open>
  The environment: the configuration read at import, the random source, whether port 8080
  can be bound, the paths of the GET requests that arrive at the port (in order), the
  token endpoint's answer, the token file and the clock. The token file does not exist,
  or holds a JSON value, or is damaged: truncated or partly written by a save that
  failed, so that \<^verbatim>\<open>json.load\<close> raises on it.
\<close>

datatype token_store = NoFile | Stored json | Damaged

record auth_world =
  TIKTOK_CLIENT_KEY :: string
  TIKTOK_CLIENT_SECRET :: string
  REDIRECT_URI :: string
  entropy :: "nat \<Rightarrow> byte"
  port_free :: bool
  incoming :: "string list"
  token_reply :: response
  tokens_file :: token_store
  now :: string

definition SCOPES :: string where
  "SCOPES = ''user.info.basic,video.publish,video.upload''"

definition load_tokens :: "auth_world \<Rightarrow> exn + json" where
  "load_tokens w =
     (case tokens_file w of
        NoFile \<Rightarrow> Inr (JObj [])
      | Stored tokens \<Rightarrow> Inr tokens
      | Damaged \<Rightarrow> Inl JSONDecodeError)"

text \<open>
  \<^verbatim>\<open>save_tokens\<close> opens the file with mode \<^verbatim>\<open>'w'\<close>, which truncates it, and then writes the
  value with \<^verbatim>\<open>json.dump(..., ensure_ascii=False)\<close> in UTF-8. The dump raises at a string that
  holds a lone surrogate, which UTF-8 cannot encode: the file is then left truncated or
  partly written. The result is what the call raises, if anything, and the file after it.
\<close>

fun has_surrogate :: "string \<Rightarrow> bool" where
  "has_surrogate (a # b # cs) =
     ((of_char a = (237 :: nat) \<and> (160 :: nat) \<le> of_char b \<and> of_char b \<le> (191 :: nat)) \<or>
      has_surrogate (b # cs))"
| "has_surrogate _ = False"

fun dumpable :: "json \<Rightarrow> bool" where
  "dumpable (JStr s) = (\<not> has_surrogate s)"
| "dumpable (JArr xs) = list_all dumpable xs"
| "dumpable (JObj kvs) = list_all (\<lambda>kv. \<not> has_surrogate (fst kv) \<and> dumpable (snd kv)) kvs"
| "dumpable _ = True"

definition save_tokens :: "json \<Rightarrow> exn option \<times> token_store" where
  "save_tokens tokens =
     (if dumpable tokens then (None, Stored tokens) else (Some UnicodeEncodeError, Damaged))"

text \<open>
  \<^verbatim>\<open>server.handle_request()\<close>: it waits for one request and handles it. With no request
  it never returns (\<open>None\<close>). An exception of the handler is caught by the server
  (\<^verbatim>\<open>handle_error\<close>). It returns the server object, the event and the requests left.
\<close>

definition handle_request :: "stdlib \<Rightarrow> oauth_server \<Rightarrow> string list
    \<Rightarrow> (oauth_server \<times> auth_event \<times> string list) option" where
  "handle_request lib server pending =
     (case pending of
        [] \<Rightarrow> None
      | path # rest \<Rightarrow>
          (case do_GET lib server path of (server', reply) \<Rightarrow> Some (server', Handled path reply, rest)))"

text \<open>\<^verbatim>\<open>d[k] = v\<close> with a string key.\<close>

fun py_setitem :: "json \<Rightarrow> string \<Rightarrow> json \<Rightarrow> exn + json" where
  "py_setitem (JObj kvs) k v = Inr (JObj (AList.update k v kvs))"
| "py_setitem _ k v = Inl TypeError"

text \<open>
  \<^verbatim>\<open>v[:20]\<close>, which the last \<^verbatim>\<open>print\<close> applies to the \<^verbatim>\<open>open_id\<close>: a string or a list can be
  sliced, anything else raises (a \<^verbatim>\<open>TypeError\<close>; for a dict, a \<^verbatim>\<open>KeyError\<close> from Python 3.12 on).
\<close>

fun py_sliceable :: "json \<Rightarrow> bool" where
  "py_sliceable (JStr s) = True"
| "py_sliceable (JArr xs) = True"
| "py_sliceable _ = False"

text \<open>
  The outcome of a call: what it returns or raises (\<open>None\<close> when it never returns), its
  events, the global \<^verbatim>\<open>_code_verifier\<close> and the token file after it, and the requests
  that arrived and were not accepted.
\<close>

record auth_run =
  returned :: "(exn + bool) option"
  events :: "auth_event list"
  code_verifier :: "string option"
  tokens_after :: token_store
  unhandled :: "string list"

text \<open>
  The second half of \<^verbatim>\<open>authenticate\<close>, from the token request on: what it returns or
  raises, its events and the token file after it.
\<close>

definition exchange_code :: "auth_world \<Rightarrow> string \<Rightarrow> string \<Rightarrow> string option
    \<Rightarrow> (exn + bool) \<times> auth_event list \<times> token_store" where
  "exchange_code w account code verifier =
     (let post = PostToken [(''client_key'', JStr (TIKTOK_CLIENT_KEY w)),
                            (''client_secret'', JStr (TIKTOK_CLIENT_SECRET w)),
                            (''code'', JStr code),
                            (''grant_type'', JStr ''authorization_code''),
                            (''redirect_uri'', JStr (REDIRECT_URI w)),
                            (''code_verifier'', case verifier of None \<Rightarrow> JNull | Some v \<Rightarrow> JStr v)];
          response = token_reply w
      in if status_code response \<noteq> 200 then (Inr False, [post], tokens_file w)
         else
           (case py_bind (resp_json response) (\<lambda>data.
                 py_bind (py_in ''access_token'' data) (\<lambda>present. Inr (data, present))) of
              Inl e \<Rightarrow> (Inl e, [post], tokens_file w)
            | Inr (data, present) \<Rightarrow>
                if \<not> present then (Inr False, [post], tokens_file w)
                else
                  (case py_bind (load_tokens w) (\<lambda>loaded.
                        py_bind (py_index data ''access_token'') (\<lambda>access_token.
                        py_bind (py_get data ''refresh_token'' (JStr [])) (\<lambda>refresh_token.
                        py_bind (py_get data ''expires_in'' (JInt 0)) (\<lambda>expires_in.
                        py_bind (py_get data ''open_id'' (JStr [])) (\<lambda>open_id.
                        py_bind (py_get data ''scope'' (JStr [])) (\<lambda>scope.
                        py_setitem loaded account
                          (JObj [(''access_token'', access_token),
                                 (''refresh_token'', refresh_token),
                                 (''expires_in'', expires_in),
                                 (''open_id'', open_id),
                                 (''scope'', scope),
                                 (''authenticated_at'', JStr (now w))]))))))) of
                     Inl e \<Rightarrow> (Inl e, [post], tokens_file w)
                   | Inr tokens \<Rightarrow>
                       (case save_tokens tokens of
                          (Some e, store) \<Rightarrow> (Inl e, [post, SaveTokens tokens], store)
                        | (None, store) \<Rightarrow>
                            (case py_get data ''open_id'' (JStr ''N/A'') of
                               Inl e \<Rightarrow> (Inl e, [post, SaveTokens tokens], store)
                             | Inr shown \<Rightarrow>
                                 (if py_sliceable shown then Inr True else Inl TypeError,
                                  [post, SaveTokens tokens], store))))))"

text \<open>\<^verbatim>\<open>authenticate\<close>, called with the global \<^verbatim>\<open>_code_verifier\<close> holding \<open>g\<close>.\<close>

definition authenticate :: "stdlib \<Rightarrow> auth_world \<Rightarrow> string option \<Rightarrow> string \<Rightarrow> auth_run" where
  "authenticate lib w g account =
     (if TIKTOK_CLIENT_KEY w = [] \<or> TIKTOK_CLIENT_SECRET w = [] then
        \<lparr> returned = Some (Inr False), events = [], code_verifier = g,
          tokens_after = tokens_file w, unhandled = incoming w \<rparr>
      else
        (case generate_pkce (sha256 lib) (entropy w) of
           (verifier, Inl e) \<Rightarrow>
             \<lparr> returned = Some (Inl e), events = [], code_verifier = Some verifier,
               tokens_after = tokens_file w, unhandled = incoming w \<rparr>
         | (verifier, Inr code_challenge) \<Rightarrow>
             let params = [(''client_key'', TIKTOK_CLIENT_KEY w), (''scope'', SCOPES),
                           (''response_type'', ''code''), (''redirect_uri'', REDIRECT_URI w),
                           (''state'', account), (''code_challenge'', code_challenge),
                           (''code_challenge_method'', ''S256'')]
             in if \<not> port_free w then
                  \<lparr> returned = Some (Inr False), events = [Bind False],
                    code_verifier = Some verifier, tokens_after = tokens_file w,
                    unhandled = incoming w \<rparr>
                else
                  (case handle_request lib \<lparr> auth_code = None, error = None \<rparr> (incoming w) of
                     None \<Rightarrow>
                       \<lparr> returned = None, events = [Bind True, OpenBrowser params],
                         code_verifier = Some verifier, tokens_after = tokens_file w,
                         unhandled = incoming w \<rparr>
                   | Some (server, handled, rest) \<Rightarrow>
                       let before = [Bind True, OpenBrowser params, handled, ServerClose] in
                       (case auth_code server of
                          None \<Rightarrow>
                            \<lparr> returned = Some (Inr False), events = before,
                              code_verifier = Some verifier, tokens_after = tokens_file w,
                              unhandled = rest \<rparr>
                        | Some code \<Rightarrow>
                            if code = [] then
                              \<lparr> returned = Some (Inr False), events = before,
                                code_verifier = Some verifier, tokens_after = tokens_file w,
                                unhandled = rest \<rparr>
                            else
                              (case exchange_code w account code (Some verifier) of
                                 (out, evs, file) \<Rightarrow>
                                   \<lparr> returned = Some out, events = before @ evs,
                                     code_verifier = Some verifier, tokens_after = file,
                                     unhandled = rest \<rparr>)))))"

fun is_handled :: "auth_event \<Rightarrow> bool" where
  "is_handled (Handled p r) = True"
| "is_handled _ = False"

fun is_bind :: "auth_event \<Rightarrow> bool" where
  "is_bind (Bind b) = True"
| "is_bind _ = False"


section \<open>Token refresh: \<^verbatim>\<open>refresh_access_token\<close>\<close>



text \<open>
  A concrete library and a concrete environment, for the examples below. The library's
  functions are stand-ins: \<open>urlparse\<close> splits at the first \<^verbatim>\<open>?\<close>, \<open>parse_qs\<close> knows the two
  query strings of the examples, \<open>sha256\<close> is constant. No theorem depends on them.
\<close>

definition example_lib :: stdlib where
  "example_lib =
     \<lparr> sha256 = (\<lambda>bytes. replicate 32 0),
       urlparse = (\<lambda>url. \<lparr> url_path = takeWhile (\<lambda>c. c \<noteq> CHR ''?'') url,
                            url_query = drop 1 (dropWhile (\<lambda>c. c \<noteq> CHR ''?'') url) \<rparr>),
       parse_qs = (\<lambda>query.
          if query = ''code=ABC'' then [(''code'', [''ABC''])]
          else if query = ''error=access_denied'' then [(''error'', [''access_denied''])]
          else []) \<rparr>"

definition token_granted :: response where
  "token_granted =
     \<lparr> status_code = 200, body_text = ''{access_token: ...}'',
       body_json = Some (JObj [(''access_token'', JStr ''act.new''),
                               (''refresh_token'', JStr ''rft.new''),
                               (''expires_in'', JInt 86400),
                               (''open_id'', JStr ''user-1''),
                               (''scope'', JStr ''user.info.basic'')]) \<rparr>"


definition stored_tokens :: json where
  "stored_tokens =
     JObj [(''default'', JObj [(''access_token'', JStr ''act.old''),
                               (''refresh_token'', JStr ''rft.old'')])]"

definition example_auth_world :: auth_world where
  "example_auth_world =
     \<lparr> TIKTOK_CLIENT_KEY = ''key'', TIKTOK_CLIENT_SECRET = ''secret'',
       REDIRECT_URI = ''http://localhost:8080/callback'',
       entropy = (\<lambda>i. 0), port_free = True,
       incoming = [''/favicon.ico'', ''/callback?code=ABC''],
       token_reply = token_granted, tokens_file = Stored stored_tokens,
       now = ''2026-01-23T18:00:00'' \<rparr>"

section \<open>Properties of the upload\<close>

lemma py_bind_Inr [simp]: "py_bind (Inr v) f = f v"
  by (simp add: py_bind_def)

lemma py_bind_Inl [simp]: "py_bind (Inl e) f = Inl e"
  by (simp add: py_bind_def)

lemma py_bind_eq_Inr: "py_bind m f = Inr y \<longleftrightarrow> (\<exists>v. m = Inr v \<and> f v = Inr y)"
  by (cases m) simp_all

lemma poll_body_next:
  assumes "no_terminal_seen r"
  shows "\<exists>s. poll_body py_repr r pid = Inr (Next s)"
proof (cases "status_code r = 200")
  case False
  then show ?thesis by (simp add: poll_body_def)
next
  case True
  with assms obtain st where st: "reported_status r = Inr st" "\<not> terminal st"
    by (auto simp: no_terminal_seen_def split: sum.splits)
  from st(1) obtain sd d where "resp_json r = Inr sd" "py_get sd ''data'' (JObj []) = Inr d"
      "py_get d ''status'' JNull = Inr st"
    by (auto simp: reported_status_def py_bind_eq_Inr)
  with True st(2) show ?thesis
    by (simp add: poll_body_def terminal_def)
qed

lemma poll_body_complete:
  assumes "status_code r = 200" "reported_status r = Inr (JStr ''PUBLISH_COMPLETE'')"
  shows "poll_body py_repr r pid =
     Inr (Break [(''success'', JBool True), (''publish_id'', pid), (''status'', JStr ''PUBLISH_COMPLETE'')])"
proof -
  from assms(2) obtain sd d where "resp_json r = Inr sd" "py_get sd ''data'' (JObj []) = Inr d"
      "py_get d ''status'' JNull = Inr (JStr ''PUBLISH_COMPLETE'')"
    by (auto simp: reported_status_def py_bind_eq_Inr)
  with assms(1) show ?thesis by (simp add: poll_body_def)
qed

lemma poll_body_failed:
  assumes "status_code r = 200" "reported_status r = Inr (JStr ''FAILED'')"
  shows "\<exists>reason. reported_fail_reason r = Inr reason \<and> poll_body py_repr r pid =
     Inr (Break [(''success'', JBool False),
                 (''error'', JStr (''Publish failed: '' @ py_str py_repr reason)),
                 (''publish_id'', pid)])"
proof -
  from assms(2) obtain sd d where sd: "resp_json r = Inr sd" "py_get sd ''data'' (JObj []) = Inr d"
      "py_get d ''status'' JNull = Inr (JStr ''FAILED'')"
    by (auto simp: reported_status_def py_bind_eq_Inr)
  from sd(3) obtain kvs where "d = JObj kvs" by (cases d) simp_all
  then obtain reason where "py_get d ''fail_reason'' (JStr ''Unknown'') = Inr reason" by simp
  with assms(1) sd show ?thesis by (simp add: poll_body_def reported_fail_reason_def)
qed

lemma poll_loop_exhausts:
  assumes "\<forall>j<n. \<exists>s. poll_body py_repr (reply (i + j)) pid = Inr (Next s)"
  shows "\<exists>tr. poll_loop py_repr reply tok pid i n = (None, tr) \<and>
         length (filter is_status_fetch tr) = n"
  using assms
proof (induction n arbitrary: i)
  case 0
  then show ?case by simp
next
  case (Suc n)
  from Suc.prems have "\<exists>s. poll_body py_repr (reply (i + 0)) pid = Inr (Next s)" by blast
  then obtain s where s: "poll_body py_repr (reply i) pid = Inr (Next s)" by auto
  have "\<forall>j<n. \<exists>s. poll_body py_repr (reply (Suc i + j)) pid = Inr (Next s)"
  proof (intro allI impI)
    fix j assume "j < n"
    then have "Suc j < Suc n" by simp
    with Suc.prems have "\<exists>s. poll_body py_repr (reply (i + Suc j)) pid = Inr (Next s)" by blast
    then show "\<exists>s. poll_body py_repr (reply (Suc i + j)) pid = Inr (Next s)" by simp
  qed
  from Suc.IH [OF this] obtain tr where
    "poll_loop py_repr reply tok pid (Suc i) n = (None, tr)" "length (filter is_status_fetch tr) = n"
    by blast
  with s show ?case by simp
qed

lemma poll_loop_breaks:
  assumes "k < n"
      and "\<forall>j<k. \<exists>s. poll_body py_repr (reply (i + j)) pid = Inr (Next s)"
      and "poll_body py_repr (reply (i + k)) pid = Inr (Break r)"
  shows "\<exists>tr. poll_loop py_repr reply tok pid i n = (Some (Inr r), tr @ [PostStatus tok pid]) \<and>
         length (filter is_status_fetch tr) = k"
  using assms
proof (induction n arbitrary: i k)
  case 0
  then show ?case by simp
next
  case (Suc n)
  show ?case
  proof (cases k)
    case 0
    with Suc.prems(3) show ?thesis by simp
  next
    case (Suc k')
    from Suc.prems(2) Suc have "\<exists>s. poll_body py_repr (reply (i + 0)) pid = Inr (Next s)" by blast
    then obtain s where s: "poll_body py_repr (reply i) pid = Inr (Next s)" by auto
    have rest: "\<forall>j<k'. \<exists>s. poll_body py_repr (reply (Suc i + j)) pid = Inr (Next s)"
    proof (intro allI impI)
      fix j assume "j < k'"
      then have "Suc j < k" using Suc by simp
      with Suc.prems(2) have "\<exists>s. poll_body py_repr (reply (i + Suc j)) pid = Inr (Next s)" by blast
      then show "\<exists>s. poll_body py_repr (reply (Suc i + j)) pid = Inr (Next s)" by simp
    qed
    from Suc.prems(1) Suc have k': "k' < n" by simp
    from Suc.prems(3) Suc have brk: "poll_body py_repr (reply (Suc i + k')) pid = Inr (Break r)" by simp
    from Suc.IH [OF k' rest brk] obtain tr where
      "poll_loop py_repr reply tok pid (Suc i) n = (Some (Inr r), tr @ [PostStatus tok pid])"
      "length (filter is_status_fetch tr) = k'"
      by blast
    with s Suc show ?thesis
      by (intro exI [of _ "PostStatus tok pid # Sleep s # tr"]) simp
  qed
qed

lemma poll_loop_raises:
  assumes "0 < n" "poll_body py_repr (reply i) pid = Inl e"
  shows "poll_loop py_repr reply tok pid i n = (Some (Inl e), [PostStatus tok pid])"
  using assms by (cases n) simp_all

lemma poll_loop_events:
  "poll_loop py_repr reply tok pid i n = (out, tr) \<Longrightarrow> \<forall>e\<in>set tr. is_status_fetch e \<or> is_sleep e"
proof (induction n arbitrary: i out tr)
  case 0
  then show ?case by simp
next
  case (Suc n)
  show ?case
  proof (cases "poll_body py_repr (reply i) pid")
    case (Inl e)
    with Suc.prems show ?thesis by auto
  next
    case (Inr f)
    show ?thesis
    proof (cases f)
      case (Break r)
      with Inr Suc.prems show ?thesis by auto
    next
      case (Next s)
      obtain out' tr' where rest: "poll_loop py_repr reply tok pid (Suc i) n = (out', tr')"
        by (cases "poll_loop py_repr reply tok pid (Suc i) n")
      from Suc.IH [OF rest] have "\<forall>e\<in>set tr'. is_status_fetch e \<or> is_sleep e" .
      with Inr Next rest Suc.prems show ?thesis by auto
    qed
  qed
qed

lemma check_publish_status_events:
  "check_publish_status py_repr w tok pid = (out, tr) \<Longrightarrow> \<forall>e\<in>set tr. is_status_fetch e \<or> is_sleep e"
  using poll_loop_events [of py_repr "status_reply w" tok pid 0 10]
  by (auto simp: check_publish_status_def split: prod.splits option.splits)

lemma phases_in_order:
  "\<exists>out tr. upload_video_direct py_repr w video_path caption tok privacy sandbox = (out, tr) \<and>
     (tr = [] \<or>
      tr = [PostInit tok (make_init_payload caption privacy (st_size w video_path))] \<or>
      (\<exists>url polls. tr = [PostInit tok (make_init_payload caption privacy (st_size w video_path)),
                         ReadVideo video_path, PutVideo url (content_range (st_size w video_path))] @ polls \<and>
                   (status_code (upload_reply w) = 200 \<or> status_code (upload_reply w) = 201 \<or>
                    polls = []) \<and>
                   (\<forall>e\<in>set polls. is_status_fetch e \<or> is_sleep e)))"
proof (cases "video_exists w video_path")
  case False
  then show ?thesis by (simp add: upload_video_direct_def)
next
  case True
  show ?thesis
  proof (cases "read_init_response (init_reply w)")
    case (Inl e)
    with True show ?thesis by (simp add: upload_video_direct_def Let_def)
  next
    case (Inr v)
    show ?thesis
    proof (cases v)
      case (Inl failure)
      with Inr True show ?thesis by (simp add: upload_video_direct_def Let_def)
    next
      case (Inr pair)
      obtain url pid where pair: "pair = (url, pid)" by (cases pair)
      obtain out tr where cps: "check_publish_status py_repr w tok pid = (out, tr)"
        by (cases "check_publish_status py_repr w tok pid")
      from check_publish_status_events [OF cps] have "\<forall>e\<in>set tr. is_status_fetch e \<or> is_sleep e" .
      with True \<open>read_init_response (init_reply w) = Inr v\<close> Inr pair cps show ?thesis
        by (auto simp: upload_video_direct_def upload_video_file_def Let_def)
    qed
  qed
qed

lemma upload_reaches_poll:
  assumes "video_exists w video_path"
      and "read_init_response (init_reply w) = Inr (Inr (upload_url, publish_id))"
      and "status_code (upload_reply w) = 200 \<or> status_code (upload_reply w) = 201"
  shows "upload_video_direct py_repr w video_path caption tok privacy sandbox =
           (case check_publish_status py_repr w tok publish_id of
              (out, tr) \<Rightarrow> (out, [PostInit tok (make_init_payload caption privacy (st_size w video_path)),
                                  ReadVideo video_path,
                                  PutVideo upload_url (content_range (st_size w video_path))] @ tr))"
  using assms
  by (auto simp: upload_video_direct_def upload_video_file_def Let_def split: prod.splits)

text \<open>When the init phase succeeds: what the init response must look like.\<close>

lemma read_init_response_accepts:
  assumes "status_code r = 200" "body_json r = Some (JObj kvs)"
      and "map_of kvs ''error'' = None \<or>
           (\<exists>err. map_of kvs ''error'' = Some (JObj err) \<and> map_of err ''code'' = Some (JStr ''ok''))"
      and "map_of kvs ''data'' = Some (JObj d)" "map_of d ''upload_url'' = Some url" "py_truthy url"
  shows "read_init_response r =
           Inr (Inr (url, case map_of d ''publish_id'' of None \<Rightarrow> JNull | Some p \<Rightarrow> p))"
  using assms by (auto simp: read_init_response_def resp_json_def)

lemma init_error_aborts:
  assumes "video_exists w video_path" "status_code (init_reply w) = 200"
      and "body_json (init_reply w) = Some (JObj kvs)"
      and "map_of kvs ''error'' = Some (JObj err)"
      and "map_of err ''code'' \<noteq> Some (JStr ''ok'')"
  shows "upload_video_direct py_repr w video_path caption tok privacy sandbox =
     (Inr [(''success'', JBool False),
           (''error'', case map_of err ''message'' of None \<Rightarrow> JStr ''Unknown error'' | Some m \<Rightarrow> m),
           (''details'', JObj kvs)],
      [PostInit tok (make_init_payload caption privacy (st_size w video_path))])"
proof -
  from assms(5) have "(case map_of err ''code'' of None \<Rightarrow> JNull | Some v \<Rightarrow> v) \<noteq> JStr ''ok''"
    by (cases "map_of err ''code''") auto
  with assms(2-4) have "read_init_response (init_reply w) =
     Inr (Inl [(''success'', JBool False),
           (''error'', case map_of err ''message'' of None \<Rightarrow> JStr ''Unknown error'' | Some m \<Rightarrow> m),
           (''details'', JObj kvs)])"
    by (simp add: read_init_response_def resp_json_def)
  with assms(1) show ?thesis by (simp add: upload_video_direct_def Let_def)
qed

lemma init_transport_failure_aborts:
  assumes "video_exists w video_path" "status_code (init_reply w) \<noteq> 200"
      and "body_json (init_reply w) = Some d" "body_text (init_reply w) \<noteq> []"
  shows "upload_video_direct py_repr w video_path caption tok privacy sandbox =
     (Inr [(''success'', JBool False),
           (''error'', JStr (''Init failed: '' @ str_int (status_code (init_reply w)))),
           (''details'', d)],
      [PostInit tok (make_init_payload caption privacy (st_size w video_path))])"
  using assms by (simp add: upload_video_direct_def Let_def read_init_response_def resp_json_def)

lemma transfer_failure_aborts:
  assumes "video_exists w video_path"
      and "read_init_response (init_reply w) = Inr (Inr (upload_url, publish_id))"
      and "status_code (upload_reply w) \<noteq> 200" "status_code (upload_reply w) \<noteq> 201"
  shows "upload_video_direct py_repr w video_path caption tok privacy sandbox =
     (Inr [(''success'', JBool False),
           (''error'', JStr (''Upload failed: '' @ str_int (status_code (upload_reply w)))),
           (''details'', JStr (body_text (upload_reply w)))],
      [PostInit tok (make_init_payload caption privacy (st_size w video_path)),
       ReadVideo video_path, PutVideo upload_url (content_range (st_size w video_path))])"
  using assms by (simp add: upload_video_direct_def upload_video_file_def Let_def)

lemma str_int_400: "str_int 400 = ''400''"
  by code_simp

lemma str_int_500: "str_int 500 = ''500''"
  by code_simp

lemma init_request_first:
  assumes "video_exists w video_path"
  shows "\<exists>out tr. upload_video_direct py_repr w video_path caption tok privacy sandbox =
           (out, PostInit tok (make_init_payload caption privacy (st_size w video_path)) # tr)"
  using assms
  by (auto simp: upload_video_direct_def Let_def split: sum.splits prod.splits)

subsection \<open>The poll loop\<close>

text \<open>
  Claim C1, as the code has it. Take any call that reaches the poll loop (the file exists,
  the init response yields an upload URL and a publish id, the PUT is answered 200 or 201).
  If each of the ten status fetches either is not answered 200, or is answered 200 with a
  body from which the status can be read (a JSON object whose \<^verbatim>\<open>data\<close>, when present, is an
  object) and the status read is neither \<^verbatim>\<open>PUBLISH_COMPLETE\<close> nor \<^verbatim>\<open>FAILED\<close>, then the call
  makes exactly 10 status fetches and returns success with status \<^verbatim>\<open>PROCESSING\<close> and the
  publish id of the job: running out of iterations is not a failure.
\<close>

theorem poll_budget_exhausted:
  assumes "video_exists w video_path"
      and "read_init_response (init_reply w) = Inr (Inr (upload_url, publish_id))"
      and "status_code (upload_reply w) = 200 \<or> status_code (upload_reply w) = 201"
      and "\<forall>i<10. no_terminal_seen (status_reply w i)"
  shows "\<exists>tr. upload_video_direct py_repr w video_path caption tok privacy sandbox =
               (Inr [(''success'', JBool True), (''publish_id'', publish_id),
                     (''status'', JStr ''PROCESSING''),
                     (''note'', JStr ''Video is being processed by TikTok'')], tr) \<and>
              length (filter is_status_fetch tr) = 10"
proof -
  have "\<forall>j<10. \<exists>s. poll_body py_repr (status_reply w (0 + j)) publish_id = Inr (Next s)"
    using assms(4) poll_body_next by simp
  from poll_loop_exhausts [OF this] obtain tr where
    "poll_loop py_repr (status_reply w) tok publish_id 0 10 = (None, tr)"
    "length (filter is_status_fetch tr) = 10"
    by blast
  then show ?thesis
    by (simp add: upload_reaches_poll [OF assms(1-3)] check_publish_status_def)
qed

lemma example_init_accepted:
  "read_init_response (init_reply example_world) = Inr (Inr (JStr ''https://x'', JStr ''p1''))"
  by (simp add: example_world_def init_accepted_def read_init_response_def resp_json_def)

lemma status_with_reported: "reported_status (status_with s) = Inr (JStr s)"
  by (simp add: status_with_def reported_status_def resp_json_def)

lemma status_with_code: "status_code (status_with s) = 200"
  by (simp add: status_with_def)

text \<open>
  The status endpoint that always reports \<^verbatim>\<open>PROCESSING_UPLOAD\<close>: ten fetches, then the
  non-terminal success.
\<close>

theorem poll_budget_exhausted_witness:
  "\<exists>tr. upload_video_direct (\<lambda>v. []) example_world ''video.mp4'' [] ''token'' ''SELF_ONLY'' False =
          (Inr [(''success'', JBool True), (''publish_id'', JStr ''p1''),
                (''status'', JStr ''PROCESSING''),
                (''note'', JStr ''Video is being processed by TikTok'')], tr) \<and>
        length (filter is_status_fetch tr) = 10"
proof -
  have 1: "video_exists example_world ''video.mp4''"
    by (simp add: example_world_def)
  have 3: "status_code (upload_reply example_world) = 200 \<or>
           status_code (upload_reply example_world) = 201"
    by (simp add: example_world_def)
  have 4: "\<forall>i<10. no_terminal_seen (status_reply example_world i)"
    by (simp add: example_world_def no_terminal_seen_def status_with_reported terminal_def)
  show ?thesis
    using poll_budget_exhausted [OF 1 example_init_accepted 3 4] .
qed

text \<open>
  The claim as stated, for every execution in which no iteration observes a terminal status,
  fails where a status fetch is answered 200 with a body that is not JSON: the iteration
  reads no status at all, terminal or not, and \<^verbatim>\<open>status_response.json()\<close> raises out of the
  call after one fetch. There are no ten iterations and no result.
\<close>

theorem unreadable_status_counterexample:
  "reported_status \<lparr> status_code = 200, body_text = ''<html>'', body_json = None \<rparr> =
     Inl JSONDecodeError \<and>
   upload_video_direct (\<lambda>v. [])
       (example_world \<lparr> status_reply :=
          (\<lambda>i. \<lparr> status_code = 200, body_text = ''<html>'', body_json = None \<rparr>) \<rparr>)
       ''video.mp4'' [] ''token'' ''SELF_ONLY'' False =
     (Inl JSONDecodeError,
      [PostInit ''token'' (make_init_payload [] ''SELF_ONLY'' 2048), ReadVideo ''video.mp4'',
       PutVideo (JStr ''https://x'') (content_range 2048),
       PostStatus ''token'' (JStr ''p1'')])"
proof -
  let ?w = "example_world \<lparr> status_reply :=
          (\<lambda>i. \<lparr> status_code = 200, body_text = ''<html>'', body_json = None \<rparr>) \<rparr>"
  have "poll_body (\<lambda>v. []) (status_reply ?w 0) (JStr ''p1'') = Inl JSONDecodeError"
    by (simp add: poll_body_def resp_json_def)
  then have poll: "poll_loop (\<lambda>v. []) (status_reply ?w) ''token'' (JStr ''p1'') 0 10 =
                (Some (Inl JSONDecodeError), [PostStatus ''token'' (JStr ''p1'')])"
    by (intro poll_loop_raises) simp_all
  have "video_exists ?w ''video.mp4''"
    "read_init_response (init_reply ?w) = Inr (Inr (JStr ''https://x'', JStr ''p1''))"
    "status_code (upload_reply ?w) = 200 \<or> status_code (upload_reply ?w) = 201"
    using example_init_accepted by (simp_all add: example_world_def)
  from upload_reaches_poll [OF this, of "\<lambda>v. []" "[]" "''token''" "''SELF_ONLY''" False] poll
  show ?thesis
    by (simp add: check_publish_status_def reported_status_def resp_json_def example_world_def)
qed

text \<open>
  Claim C2. Take any call that reaches the poll loop, and an iteration \<open>k\<close> (below 10) that
  is reached because no earlier iteration observed a terminal status. If its status fetch
  is answered 200 and reports \<^verbatim>\<open>PUBLISH_COMPLETE\<close>, the call returns success with the publish
  id of the job; if it reports \<^verbatim>\<open>FAILED\<close>, the call returns a failure whose error is
  \<^verbatim>\<open>Publish failed: \<close> followed by the \<^verbatim>\<open>fail_reason\<close> the provider sent (\<^verbatim>\<open>Unknown\<close> when it
  sent none). In both cases the fetch of iteration \<open>k\<close> is the last event of the call:
  \<open>k\<close> fetches before it and nothing after it.
\<close>

theorem terminal_status_returns:
  assumes "video_exists w video_path"
      and "read_init_response (init_reply w) = Inr (Inr (upload_url, publish_id))"
      and "status_code (upload_reply w) = 200 \<or> status_code (upload_reply w) = 201"
      and "k < 10"
      and "\<forall>i<k. no_terminal_seen (status_reply w i)"
      and "status_code (status_reply w k) = 200"
      and "reported_status (status_reply w k) = Inr st"
  shows "(st = JStr ''PUBLISH_COMPLETE'' \<longrightarrow>
           (\<exists>tr. upload_video_direct py_repr w video_path caption tok privacy sandbox =
                   (Inr [(''success'', JBool True), (''publish_id'', publish_id),
                         (''status'', JStr ''PUBLISH_COMPLETE'')],
                    tr @ [PostStatus tok publish_id]) \<and>
                 length (filter is_status_fetch tr) = k)) \<and>
         (st = JStr ''FAILED'' \<longrightarrow>
           (\<exists>tr reason. reported_fail_reason (status_reply w k) = Inr reason \<and>
                 upload_video_direct py_repr w video_path caption tok privacy sandbox =
                   (Inr [(''success'', JBool False),
                         (''error'', JStr (''Publish failed: '' @ py_str py_repr reason)),
                         (''publish_id'', publish_id)],
                    tr @ [PostStatus tok publish_id]) \<and>
                 length (filter is_status_fetch tr) = k))"
proof -
  have before: "\<forall>j<k. \<exists>s. poll_body py_repr (status_reply w (0 + j)) publish_id = Inr (Next s)"
    using assms(5) poll_body_next by simp
  have run: "\<exists>tr. upload_video_direct py_repr w video_path caption tok privacy sandbox =
                 (Inr r, tr @ [PostStatus tok publish_id]) \<and> length (filter is_status_fetch tr) = k"
    if "poll_body py_repr (status_reply w (0 + k)) publish_id = Inr (Break r)" for r
  proof -
    from poll_loop_breaks [OF assms(4) before that] obtain tr where
      "poll_loop py_repr (status_reply w) tok publish_id 0 10 = (Some (Inr r), tr @ [PostStatus tok publish_id])"
      "length (filter is_status_fetch tr) = k"
      by blast
    then show ?thesis
      by (intro exI [of _ "[PostInit tok (make_init_payload caption privacy (st_size w video_path)),
            ReadVideo video_path, PutVideo upload_url (content_range (st_size w video_path))] @ tr"])
         (simp add: upload_reaches_poll [OF assms(1-3)] check_publish_status_def)
  qed
  show ?thesis
  proof (intro conjI impI)
    assume "st = JStr ''PUBLISH_COMPLETE''"
    with assms(6,7) have "poll_body py_repr (status_reply w (0 + k)) publish_id =
        Inr (Break [(''success'', JBool True), (''publish_id'', publish_id),
                    (''status'', JStr ''PUBLISH_COMPLETE'')])"
      by (simp add: poll_body_complete)
    from run [OF this] show "\<exists>tr. upload_video_direct py_repr w video_path caption tok privacy sandbox =
                   (Inr [(''success'', JBool True), (''publish_id'', publish_id),
                         (''status'', JStr ''PUBLISH_COMPLETE'')],
                    tr @ [PostStatus tok publish_id]) \<and>
                 length (filter is_status_fetch tr) = k" .
  next
    assume "st = JStr ''FAILED''"
    with assms(6,7) poll_body_failed [of "status_reply w k" py_repr publish_id]
    obtain reason where reason: "reported_fail_reason (status_reply w k) = Inr reason"
      "poll_body py_repr (status_reply w (0 + k)) publish_id =
         Inr (Break [(''success'', JBool False),
                     (''error'', JStr (''Publish failed: '' @ py_str py_repr reason)),
                     (''publish_id'', publish_id)])"
      by auto
    from run [OF reason(2)] reason(1)
    show "\<exists>tr reason. reported_fail_reason (status_reply w k) = Inr reason \<and>
                 upload_video_direct py_repr w video_path caption tok privacy sandbox =
                   (Inr [(''success'', JBool False),
                         (''error'', JStr (''Publish failed: '' @ py_str py_repr reason)),
                         (''publish_id'', publish_id)],
                    tr @ [PostStatus tok publish_id]) \<and>
                 length (filter is_status_fetch tr) = k"
      by blast
  qed
qed

text \<open>A job that fails on the fourth fetch, and one that is complete on the first.\<close>

theorem terminal_status_returns_witness:
  "(\<exists>tr. upload_video_direct (\<lambda>v. []) (failing_at 3) ''video.mp4'' [] ''token'' ''SELF_ONLY'' False =
          (Inr [(''success'', JBool False),
                (''error'', JStr ''Publish failed: file_format_check_failed''),
                (''publish_id'', JStr ''p1'')],
           tr @ [PostStatus ''token'' (JStr ''p1'')]) \<and>
        length (filter is_status_fetch tr) = 3) \<and>
   (\<exists>tr. upload_video_direct (\<lambda>v. [])
            (example_world \<lparr> status_reply := (\<lambda>i. status_with ''PUBLISH_COMPLETE'') \<rparr>)
            ''video.mp4'' [] ''token'' ''SELF_ONLY'' False =
          (Inr [(''success'', JBool True), (''publish_id'', JStr ''p1''),
                (''status'', JStr ''PUBLISH_COMPLETE'')],
           tr @ [PostStatus ''token'' (JStr ''p1'')]) \<and>
        length (filter is_status_fetch tr) = 0)"
proof
  let ?w = "failing_at 3"
  have 1: "video_exists ?w ''video.mp4''"
    by (simp add: failing_at_def example_world_def)
  have 2: "read_init_response (init_reply ?w) = Inr (Inr (JStr ''https://x'', JStr ''p1''))"
    using example_init_accepted by (simp add: failing_at_def)
  have 3: "status_code (upload_reply ?w) = 200 \<or> status_code (upload_reply ?w) = 201"
    by (simp add: failing_at_def example_world_def)
  have 4: "(3::nat) < 10" by simp
  have 5: "\<forall>i<3. no_terminal_seen (status_reply ?w i)"
    by (simp add: failing_at_def no_terminal_seen_def status_with_reported terminal_def)
  have 6: "status_code (status_reply ?w 3) = 200"
    by (simp add: failing_at_def status_with_code)
  have 7: "reported_status (status_reply ?w 3) = Inr (JStr ''FAILED'')"
    by (simp add: failing_at_def status_with_reported)
  have reason: "reported_fail_reason (status_reply ?w 3) = Inr (JStr ''file_format_check_failed'')"
    by (simp add: failing_at_def status_with_def reported_fail_reason_def resp_json_def)
  from terminal_status_returns [OF 1 2 3 4 5 6 7, of "\<lambda>v. []" "[]" "''token''" "''SELF_ONLY''" False]
  show "\<exists>tr. upload_video_direct (\<lambda>v. []) ?w ''video.mp4'' [] ''token'' ''SELF_ONLY'' False =
          (Inr [(''success'', JBool False),
                (''error'', JStr ''Publish failed: file_format_check_failed''),
                (''publish_id'', JStr ''p1'')],
           tr @ [PostStatus ''token'' (JStr ''p1'')]) \<and>
        length (filter is_status_fetch tr) = 3"
    by (auto simp: reason)
next
  let ?w = "example_world \<lparr> status_reply := (\<lambda>i. status_with ''PUBLISH_COMPLETE'') \<rparr>"
  have 1: "video_exists ?w ''video.mp4''"
    by (simp add: example_world_def)
  have 2: "read_init_response (init_reply ?w) = Inr (Inr (JStr ''https://x'', JStr ''p1''))"
    using example_init_accepted by simp
  have 3: "status_code (upload_reply ?w) = 200 \<or> status_code (upload_reply ?w) = 201"
    by (simp add: example_world_def)
  have 4: "(0::nat) < 10" by simp
  have 5: "\<forall>i<0. no_terminal_seen (status_reply ?w i)" by simp
  have 6: "status_code (status_reply ?w 0) = 200"
    by (simp add: status_with_code)
  have 7: "reported_status (status_reply ?w 0) = Inr (JStr ''PUBLISH_COMPLETE'')"
    by (simp add: status_with_reported)
  from terminal_status_returns [OF 1 2 3 4 5 6 7, of "\<lambda>v. []" "[]" "''token''" "''SELF_ONLY''" False]
  show "\<exists>tr. upload_video_direct (\<lambda>v. []) ?w ''video.mp4'' [] ''token'' ''SELF_ONLY'' False =
          (Inr [(''success'', JBool True), (''publish_id'', JStr ''p1''),
                (''status'', JStr ''PUBLISH_COMPLETE'')],
           tr @ [PostStatus ''token'' (JStr ''p1'')]) \<and>
        length (filter is_status_fetch tr) = 0"
    by auto
qed

subsection \<open>The three phases\<close>

text \<open>
  Claim C7. Whenever the init request is sent (the video file exists), it is the first
  event of the call, and its body carries the caption cut to its first 150 code points as
  the title, a \<^verbatim>\<open>FILE_UPLOAD\<close> source of the file's size with
  \<^verbatim>\<open>chunk_size = min(size, 10 * 1024 * 1024)\<close> and \<^verbatim>\<open>total_chunk_count = 1\<close>, for every
  file size and every caption.
\<close>

theorem init_request_body:
  assumes "video_exists w video_path"
  shows "\<exists>out payload tr.
           upload_video_direct py_repr w video_path caption tok privacy sandbox =
             (out, PostInit tok payload # tr) \<and>
           title (post_info payload) = take 150 caption \<and>
           length (title (post_info payload)) \<le> 150 \<and>
           source (source_info payload) = ''FILE_UPLOAD'' \<and>
           video_size (source_info payload) = st_size w video_path \<and>
           chunk_size (source_info payload) = min (st_size w video_path) (10 * 1024 * 1024) \<and>
           total_chunk_count (source_info payload) = 1"
proof -
  from init_request_first [OF assms] obtain out tr where
    "upload_video_direct py_repr w video_path caption tok privacy sandbox =
       (out, PostInit tok (make_init_payload caption privacy (st_size w video_path)) # tr)"
    by blast
  then show ?thesis
    by (intro exI [of _ out] exI [of _ "make_init_payload caption privacy (st_size w video_path)"]
          exI [of _ tr]) (simp add: make_init_payload_def)
qed

text \<open>A caption of 200 code points and a file of 20,000,000 bytes.\<close>

theorem init_request_body_witness:
  "\<exists>out payload tr.
     upload_video_direct (\<lambda>v. []) (example_world \<lparr> st_size := (\<lambda>p. 20000000) \<rparr>) ''video.mp4''
         (replicate 200 7) ''token'' ''SELF_ONLY'' False =
       (out, PostInit ''token'' payload # tr) \<and>
     title (post_info payload) = replicate 150 7 \<and>
     chunk_size (source_info payload) = 10485760 \<and>
     total_chunk_count (source_info payload) = 1"
proof -
  have "video_exists (example_world \<lparr> st_size := (\<lambda>p. 20000000) \<rparr>) ''video.mp4''"
    by (simp add: example_world_def)
  from init_request_body [OF this, of "\<lambda>v. []" "replicate 200 7" "''token''" "''SELF_ONLY''" False]
  show ?thesis by auto
qed

text \<open>
  Claim C3, as the code has it. Every call makes its requests in the order init, PUT,
  status fetches, and a failed phase ends the call:
  \<^item> the events of a call are none, or the init request alone, or the init request, the
    file read and the PUT followed by status fetches and sleeps only, and these only when
    the PUT was answered 200 or 201;
  \<^item> when the init response has status 200 and its JSON body holds an \<^verbatim>\<open>error\<close> object whose
    \<^verbatim>\<open>code\<close> is not \<^verbatim>\<open>ok\<close>, the call returns a failure whose error is the provider's
    \<^verbatim>\<open>message\<close> (\<^verbatim>\<open>Unknown error\<close> when the object has none), and the init request is its
    only event;
  \<^item> when the init response has another status and a JSON body, the call returns the
    failure \<^verbatim>\<open>Init failed: <status>\<close> with the body as details, and the init request is its
    only event;
  \<^item> when the init phase succeeds and the PUT is answered neither 200 nor 201, the call
    returns the failure \<^verbatim>\<open>Upload failed: <status>\<close>, and its events end with the PUT.
\<close>

theorem failed_phase_aborts:
  "(\<exists>out tr. upload_video_direct py_repr w video_path caption tok privacy sandbox = (out, tr) \<and>
      (tr = [] \<or>
       tr = [PostInit tok (make_init_payload caption privacy (st_size w video_path))] \<or>
       (\<exists>url polls.
          tr = [PostInit tok (make_init_payload caption privacy (st_size w video_path)),
                ReadVideo video_path, PutVideo url (content_range (st_size w video_path))] @ polls \<and>
          (status_code (upload_reply w) = 200 \<or> status_code (upload_reply w) = 201 \<or> polls = []) \<and>
          (\<forall>e\<in>set polls. is_status_fetch e \<or> is_sleep e)))) \<and>
   (video_exists w video_path \<and> status_code (init_reply w) = 200 \<and>
    body_json (init_reply w) = Some (JObj kvs) \<and> map_of kvs ''error'' = Some (JObj err) \<and>
    map_of err ''code'' \<noteq> Some (JStr ''ok'') \<longrightarrow>
      upload_video_direct py_repr w video_path caption tok privacy sandbox =
        (Inr [(''success'', JBool False),
              (''error'', case map_of err ''message'' of None \<Rightarrow> JStr ''Unknown error''
                          | Some m \<Rightarrow> m),
              (''details'', JObj kvs)],
         [PostInit tok (make_init_payload caption privacy (st_size w video_path))])) \<and>
   (video_exists w video_path \<and> status_code (init_reply w) \<noteq> 200 \<and>
    body_json (init_reply w) = Some d \<and> body_text (init_reply w) \<noteq> [] \<longrightarrow>
      upload_video_direct py_repr w video_path caption tok privacy sandbox =
        (Inr [(''success'', JBool False),
              (''error'', JStr (''Init failed: '' @ str_int (status_code (init_reply w)))),
              (''details'', d)],
         [PostInit tok (make_init_payload caption privacy (st_size w video_path))])) \<and>
   (video_exists w video_path \<and>
    read_init_response (init_reply w) = Inr (Inr (upload_url, publish_id)) \<and>
    status_code (upload_reply w) \<noteq> 200 \<and> status_code (upload_reply w) \<noteq> 201 \<longrightarrow>
      upload_video_direct py_repr w video_path caption tok privacy sandbox =
        (Inr [(''success'', JBool False),
              (''error'', JStr (''Upload failed: '' @ str_int (status_code (upload_reply w)))),
              (''details'', JStr (body_text (upload_reply w)))],
         [PostInit tok (make_init_payload caption privacy (st_size w video_path)),
          ReadVideo video_path, PutVideo upload_url (content_range (st_size w video_path))]))"
  using phases_in_order [of py_repr w video_path caption tok privacy sandbox]
    init_error_aborts [of w video_path kvs err py_repr caption tok privacy sandbox]
    init_transport_failure_aborts [of w video_path d py_repr caption tok privacy sandbox]
    transfer_failure_aborts [of w video_path upload_url publish_id py_repr caption tok privacy sandbox]
  by blast

text \<open>
  The claim as stated fails where the init response embeds the error with a status other
  than 200, as the provider's API does for a rejected request: the error of the result
  is \<^verbatim>\<open>Init failed: 400\<close>, which does not contain the provider's message (the message is in
  the details only).
\<close>

theorem init_failure_message_counterexample:
  "upload_video_direct (\<lambda>v. []) (example_world \<lparr> init_reply := init_rejected 400 \<rparr>)
       ''video.mp4'' [] ''token'' ''SELF_ONLY'' False =
     (Inr [(''success'', JBool False), (''error'', JStr ''Init failed: 400''),
           (''details'', JObj [(''error'', JObj [(''code'', JStr ''invalid_params''),
                                (''message'', JStr ''The request parameters are invalid'')])])],
      [PostInit ''token'' (make_init_payload [] ''SELF_ONLY'' 2048)]) \<and>
   \<not> is_substring ''The request parameters are invalid'' ''Init failed: 400''"
  by (simp add: upload_video_direct_def example_world_def init_rejected_def read_init_response_def
      resp_json_def str_int_400 Let_def)

text \<open>
  The same rejection answered with status 200 (scenario A), and a PUT answered 500
  (scenario B).
\<close>

theorem failed_phase_aborts_witness:
  "upload_video_direct (\<lambda>v. []) (example_world \<lparr> init_reply := init_rejected 200 \<rparr>)
       ''video.mp4'' [] ''token'' ''SELF_ONLY'' False =
     (Inr [(''success'', JBool False), (''error'', JStr ''The request parameters are invalid''),
           (''details'', JObj [(''error'', JObj [(''code'', JStr ''invalid_params''),
                                (''message'', JStr ''The request parameters are invalid'')])])],
      [PostInit ''token'' (make_init_payload [] ''SELF_ONLY'' 2048)]) \<and>
   upload_video_direct (\<lambda>v. [])
       (example_world \<lparr> upload_reply := \<lparr> status_code = 500, body_text = ''oops'', body_json = None \<rparr> \<rparr>)
       ''video.mp4'' [] ''token'' ''SELF_ONLY'' False =
     (Inr [(''success'', JBool False), (''error'', JStr ''Upload failed: 500''),
           (''details'', JStr ''oops'')],
      [PostInit ''token'' (make_init_payload [] ''SELF_ONLY'' 2048), ReadVideo ''video.mp4'',
       PutVideo (JStr ''https://x'') (content_range 2048)])"
proof
  let ?w = "example_world \<lparr> init_reply := init_rejected 200 \<rparr>"
  let ?err = "[(''code'', JStr ''invalid_params''),
               (''message'', JStr ''The request parameters are invalid'')]"
  have "video_exists ?w ''video.mp4'' \<and> status_code (init_reply ?w) = 200 \<and>
        body_json (init_reply ?w) = Some (JObj [(''error'', JObj ?err)]) \<and>
        map_of [(''error'', JObj ?err)] ''error'' = Some (JObj ?err) \<and>
        map_of ?err ''code'' \<noteq> Some (JStr ''ok'')"
    by (simp add: example_world_def init_rejected_def)
  with failed_phase_aborts [of "\<lambda>v. []" ?w "''video.mp4''" "[]" "''token''" "''SELF_ONLY''" False
      "[(''error'', JObj ?err)]" ?err]
  show "upload_video_direct (\<lambda>v. []) ?w ''video.mp4'' [] ''token'' ''SELF_ONLY'' False =
     (Inr [(''success'', JBool False), (''error'', JStr ''The request parameters are invalid''),
           (''details'', JObj [(''error'', JObj ?err)])],
      [PostInit ''token'' (make_init_payload [] ''SELF_ONLY'' 2048)])"
    by (simp add: example_world_def)
next
  let ?w = "example_world \<lparr> upload_reply := \<lparr> status_code = 500, body_text = ''oops'', body_json = None \<rparr> \<rparr>"
  have "video_exists ?w ''video.mp4'' \<and>
        read_init_response (init_reply ?w) = Inr (Inr (JStr ''https://x'', JStr ''p1'')) \<and>
        status_code (upload_reply ?w) \<noteq> 200 \<and> status_code (upload_reply ?w) \<noteq> 201"
    using example_init_accepted by (simp add: example_world_def)
  with failed_phase_aborts [of "\<lambda>v. []" ?w "''video.mp4''" "[]" "''token''" "''SELF_ONLY''" False
      _ _ _ "JStr ''https://x''" "JStr ''p1''"]
  show "upload_video_direct (\<lambda>v. []) ?w ''video.mp4'' [] ''token'' ''SELF_ONLY'' False =
     (Inr [(''success'', JBool False), (''error'', JStr ''Upload failed: 500''),
           (''details'', JStr ''oops'')],
      [PostInit ''token'' (make_init_payload [] ''SELF_ONLY'' 2048), ReadVideo ''video.mp4'',
       PutVideo (JStr ''https://x'') (content_range 2048)])"
    by (simp add: example_world_def str_int_500)
qed


section \<open>Properties of the PKCE pair\<close>

lemma alphabet_length: "length b64url_alphabet = 64"
  by (simp add: b64url_alphabet_def)

lemma alphabet_no_pad: "CHR ''='' \<notin> set b64url_alphabet"
  by (simp add: b64url_alphabet_def)

lemma alphabet_ascii: "list_all (\<lambda>c. (of_char c :: nat) < 128) b64url_alphabet"
  by (simp add: b64url_alphabet_def)

lemma sextet_char_in: "n < 64 \<Longrightarrow> sextet_char n \<in> set b64url_alphabet"
  by (simp add: sextet_char_def alphabet_length)

lemma byte_bound: "unat (a :: byte) < 256"
  using unsigned_less [of a, where 'a = nat] by simp

lemma sextets:
  fixes a b c :: byte
  shows "unat a div 4 < 64" "unat a mod 4 * 16 < 64" "unat a mod 4 * 16 + unat b div 16 < 64"
    "unat b mod 16 * 4 < 64" "unat b mod 16 * 4 + unat c div 64 < 64" "unat c mod 64 < 64"
  using byte_bound [of a] byte_bound [of b] byte_bound [of c] by arith+

lemma b64_shape:
  "\<exists>core. urlsafe_b64encode bs = core @ replicate ((3 - length bs mod 3) mod 3) CHR ''='' \<and>
          set core \<subseteq> set b64url_alphabet \<and> length core = (4 * length bs + 2) div 3"
proof (induction bs rule: urlsafe_b64encode.induct)
  case 1
  then show ?case by simp
next
  case (2 a)
  show ?case
    by (intro exI [of _ "[sextet_char (unat a div 4), sextet_char (unat a mod 4 * 16)]"])
       (simp add: sextet_char_in sextets numeral_2_eq_2)
next
  case (3 a b)
  show ?case
    by (intro exI [of _ "[sextet_char (unat a div 4), sextet_char (unat a mod 4 * 16 + unat b div 16),
          sextet_char (unat b mod 16 * 4)]"])
       (simp add: sextet_char_in sextets)
next
  case (4 a b c rest)
  then obtain core where core: "urlsafe_b64encode rest = core @ replicate ((3 - length rest mod 3) mod 3) CHR ''=''"
    "set core \<subseteq> set b64url_alphabet" "length core = (4 * length rest + 2) div 3"
    by blast
  have m: "(3 - length (a # b # c # rest) mod 3) mod 3 = (3 - length rest mod 3) mod 3"
    by (simp add: mod_Suc)
  have l: "(4 * length (a # b # c # rest) + 2) div 3 = 4 + (4 * length rest + 2) div 3"
    by simp
  show ?case
    unfolding m l
    using core
    by (intro exI [of _ "[sextet_char (unat a div 4), sextet_char (unat a mod 4 * 16 + unat b div 16),
          sextet_char (unat b mod 16 * 4 + unat c div 64), sextet_char (unat c mod 64)] @ core"])
       (simp add: sextet_char_in sextets)
qed

lemma rstrip_padding:
  assumes "c \<notin> set xs"
  shows "rstrip c (xs @ replicate k c) = xs"
proof -
  have "dropWhile (\<lambda>x. x = c) (replicate k c @ rev xs) = dropWhile (\<lambda>x. x = c) (rev xs)"
    by (induction k) simp_all
  also have "\<dots> = rev xs"
  proof (cases "rev xs")
    case Nil
    then show ?thesis by simp
  next
    case (Cons y ys)
    then have "y \<in> set xs" by (metis list.set_intros(1) set_rev)
    with assms have "y \<noteq> c" by blast
    with Cons show ?thesis by simp
  qed
  finally show ?thesis by (simp add: rstrip_def)
qed

lemma rstrip_no_trailing: "rstrip c s = [] \<or> last (rstrip c s) \<noteq> c"
proof -
  have "dropWhile (\<lambda>x. x = c) (rev s) = [] \<or> hd (dropWhile (\<lambda>x. x = c) (rev s)) \<noteq> c"
    using hd_dropWhile [of "\<lambda>x. x = c" "rev s"] by blast
  then show ?thesis
    by (auto simp: rstrip_def last_rev)
qed

lemma token_urlsafe_shape:
  "set (token_urlsafe ent n) \<subseteq> set b64url_alphabet \<and>
   length (token_urlsafe ent n) = (4 * n + 2) div 3"
proof -
  obtain core where core:
    "urlsafe_b64encode (token_bytes ent n) =
       core @ replicate ((3 - length (token_bytes ent n) mod 3) mod 3) CHR ''=''"
    "set core \<subseteq> set b64url_alphabet" "length core = (4 * length (token_bytes ent n) + 2) div 3"
    using b64_shape by blast
  from core(2) alphabet_no_pad have "CHR ''='' \<notin> set core" by blast
  then have "token_urlsafe ent n = core"
    by (simp add: token_urlsafe_def core(1) rstrip_padding)
  with core(2,3) show ?thesis by (simp add: token_bytes_def)
qed

lemma encode_ascii_alphabet:
  assumes "set s \<subseteq> set b64url_alphabet"
  shows "encode_ascii s = Inr (map of_char s)"
proof -
  have "\<forall>c\<in>set b64url_alphabet. (of_char c :: nat) < 128"
    using alphabet_ascii by (simp add: list_all_iff)
  with assms have "list_all (\<lambda>c. (of_char c :: nat) < 128) s"
    by (auto simp: list_all_iff)
  then show ?thesis by (simp add: encode_ascii_def)
qed


lemma generate_pkce_result:
  "\<exists>verifier challenge.
     generate_pkce hash ent = (verifier, Inr challenge) \<and>
     challenge = rstrip CHR ''='' (urlsafe_b64encode (hash (map of_char verifier))) \<and>
     (challenge = [] \<or> last challenge \<noteq> CHR ''='') \<and>
     length verifier = 86 \<and>
     set verifier \<subseteq> set b64url_alphabet"
proof -
  let ?v = "take 128 (token_urlsafe ent 64)"
  have len: "length (token_urlsafe ent 64) = 86"
    using token_urlsafe_shape [of ent 64] by simp
  have sub: "set ?v \<subseteq> set b64url_alphabet"
    using token_urlsafe_shape [of ent 64] set_take_subset [of 128 "token_urlsafe ent 64"]
    by blast
  have "generate_pkce hash ent =
          (?v, Inr (rstrip CHR ''='' (urlsafe_b64encode (hash (map of_char ?v)))))"
    by (simp add: generate_pkce_def encode_ascii_alphabet [OF sub] Let_def)
  with sub len rstrip_no_trailing [of "CHR ''=''"] show ?thesis
    by simp
qed

text \<open>
  Claim C4. For every random source and every hash function, \<^verbatim>\<open>generate_pkce\<close> does not
  raise; the challenge it returns is the URL-safe base64 text of the hash of the verifier's
  ASCII bytes with the trailing \<^verbatim>\<open>=\<close> padding stripped (so it does not end in \<^verbatim>\<open>=\<close>); and the
  verifier it stores has between 43 and 128 characters, all of the URL-safe alphabet
  \<^verbatim>\<open>A-Z a-z 0-9 - _\<close>. (It has exactly 86: 64 random bytes encode to 86 characters.)
\<close>

theorem pkce_pair:
  "\<exists>verifier challenge.
     generate_pkce hash ent = (verifier, Inr challenge) \<and>
     challenge = rstrip CHR ''='' (urlsafe_b64encode (hash (map of_char verifier))) \<and>
     (challenge = [] \<or> last challenge \<noteq> CHR ''='') \<and>
     43 \<le> length verifier \<and> length verifier \<le> 128 \<and>
     set verifier \<subseteq> set b64url_alphabet"
proof -
  from generate_pkce_result [of hash ent] obtain verifier challenge where
    "generate_pkce hash ent = (verifier, Inr challenge)"
    "challenge = rstrip CHR ''='' (urlsafe_b64encode (hash (map of_char verifier)))"
    "challenge = [] \<or> last challenge \<noteq> CHR ''=''"
    "length verifier = 86" "set verifier \<subseteq> set b64url_alphabet"
    by blast
  then show ?thesis by auto
qed

text \<open>The pair generated from a random source that delivers the byte 255 only.\<close>

theorem pkce_pair_witness:
  "\<exists>verifier challenge.
     generate_pkce (sha256 example_lib) (\<lambda>i. 255) = (verifier, Inr challenge) \<and>
     challenge = rstrip CHR ''='' (urlsafe_b64encode (sha256 example_lib (map of_char verifier))) \<and>
     (challenge = [] \<or> last challenge \<noteq> CHR ''='') \<and>
     43 \<le> length verifier \<and> length verifier \<le> 128 \<and>
     set verifier \<subseteq> set b64url_alphabet"
  using pkce_pair [of "sha256 example_lib" "\<lambda>i. 255"] .


section \<open>Properties of the callback listener and of authenticate\<close>

lemma do_GET_other_path:
  "url_path (urlparse lib path) \<noteq> ''/callback'' \<Longrightarrow>
   do_GET lib server path =
     (server, Inr \<lparr> reply_status = 404, reply_headers = [], reply_page = None \<rparr>)"
  by (simp add: do_GET_def)

lemma other_path_run:
  assumes "TIKTOK_CLIENT_KEY w \<noteq> []" "TIKTOK_CLIENT_SECRET w \<noteq> []" "port_free w"
      and "incoming w = path # rest"
      and "url_path (urlparse lib path) \<noteq> ''/callback''"
  shows "\<exists>verifier params.
           authenticate lib w g account =
             \<lparr> returned = Some (Inr False),
               events = [Bind True, OpenBrowser params,
                         Handled path (Inr \<lparr> reply_status = 404, reply_headers = [],
                                             reply_page = None \<rparr>),
                         ServerClose],
               code_verifier = Some verifier, tokens_after = tokens_file w, unhandled = rest \<rparr>"
proof -
  from generate_pkce_result [of "sha256 lib" "entropy w"] obtain verifier challenge where
    "generate_pkce (sha256 lib) (entropy w) = (verifier, Inr challenge)"
    by blast
  with assms show ?thesis
    by (simp add: authenticate_def handle_request_def do_GET_other_path Let_def)
qed

lemma exchange_code_events:
  assumes "exchange_code w account code verifier = (out, evs, file)"
  shows "(\<exists>form. evs = [PostToken form] \<and> file = tokens_file w \<and> out \<noteq> Inr True) \<or>
         (\<exists>form tokens. evs = [PostToken form, SaveTokens tokens] \<and>
            file = snd (save_tokens tokens))"
  using assms
  by (auto simp: exchange_code_def Let_def split: if_splits sum.splits prod.splits option.splits)

lemma single_request_run:
  "\<exists>r. authenticate lib w g account = r \<and>
     ((\<forall>e\<in>set (events r). \<not> is_handled e) \<and> unhandled r = incoming w \<or>
      (\<exists>params path reply rest.
         events r = [Bind True, OpenBrowser params, Handled path reply, ServerClose] @ rest \<and>
         (\<forall>e\<in>set rest. \<not> is_handled e \<and> \<not> is_bind e) \<and>
         incoming w = path # unhandled r))"
proof -
  from generate_pkce_result [of "sha256 lib" "entropy w"] obtain verifier challenge where
    pk: "generate_pkce (sha256 lib) (entropy w) = (verifier, Inr challenge)"
    by blast
  show ?thesis
  proof (cases "TIKTOK_CLIENT_KEY w = [] \<or> TIKTOK_CLIENT_SECRET w = [] \<or> \<not> port_free w \<or> incoming w = []")
    case True
    with pk show ?thesis
      by (auto simp: authenticate_def handle_request_def Let_def)
  next
    case False
    then obtain path rest where inc: "incoming w = path # rest"
      by (cases "incoming w") auto
    obtain server reply where dg: "do_GET lib \<lparr> auth_code = None, error = None \<rparr> path = (server, reply)"
      by (cases "do_GET lib \<lparr> auth_code = None, error = None \<rparr> path")
    show ?thesis
    proof (cases "auth_code server = None \<or> auth_code server = Some []")
      case True
      with False pk inc dg show ?thesis
        by (auto simp: authenticate_def handle_request_def Let_def)
    next
      case no: False
      then obtain code where code: "auth_code server = Some code" "code \<noteq> []" by auto
      obtain out evs after where ex: "exchange_code w account code (Some verifier) = (out, evs, after)"
        by (cases "exchange_code w account code (Some verifier)")
      from exchange_code_events [OF ex] have "\<forall>e\<in>set evs. \<not> is_handled e \<and> \<not> is_bind e"
        by auto
      with False pk inc dg code ex show ?thesis
        by (auto simp: authenticate_def handle_request_def Let_def)
    qed
  qed
qed

text \<open>
  Claim C5, as the code has it. With the credentials configured and the port bound, when
  the first request that arrives is for a path other than \<^verbatim>\<open>/callback\<close>, the handler answers
  404, and that request ends the wait: \<^verbatim>\<open>handle_request\<close> is called once, the server is
  closed, the session holds no code, and \<^verbatim>\<open>authenticate\<close> returns \<^verbatim>\<open>False\<close> without a token
  request. Requests that arrive later are not accepted.
\<close>

theorem other_path_ends_wait:
  assumes "TIKTOK_CLIENT_KEY w \<noteq> []" "TIKTOK_CLIENT_SECRET w \<noteq> []" "port_free w"
      and "incoming w = path # rest"
      and "url_path (urlparse lib path) \<noteq> ''/callback''"
  shows "\<exists>verifier params.
           authenticate lib w g account =
             \<lparr> returned = Some (Inr False),
               events = [Bind True, OpenBrowser params,
                         Handled path (Inr \<lparr> reply_status = 404, reply_headers = [],
                                             reply_page = None \<rparr>),
                         ServerClose],
               code_verifier = Some verifier, tokens_after = tokens_file w, unhandled = rest \<rparr>"
  using other_path_run [OF assms] .

text \<open>A single request for \<^verbatim>\<open>/other\<close>.\<close>

theorem other_path_ends_wait_witness:
  "\<exists>verifier params.
     authenticate example_lib (example_auth_world \<lparr> incoming := [''/other''] \<rparr>) None ''default'' =
       \<lparr> returned = Some (Inr False),
         events = [Bind True, OpenBrowser params,
                   Handled ''/other'' (Inr \<lparr> reply_status = 404, reply_headers = [],
                                            reply_page = None \<rparr>),
                   ServerClose],
         code_verifier = Some verifier, tokens_after = Stored stored_tokens, unhandled = [] \<rparr>"
proof -
  let ?w = "example_auth_world \<lparr> incoming := [''/other''] \<rparr>"
  have 1: "TIKTOK_CLIENT_KEY ?w \<noteq> []" and 2: "TIKTOK_CLIENT_SECRET ?w \<noteq> []" and 3: "port_free ?w"
    and 4: "incoming ?w = ''/other'' # []"
    by (simp_all add: example_auth_world_def)
  have 5: "url_path (urlparse example_lib ''/other'') \<noteq> ''/callback''"
    by (simp add: example_lib_def)
  from other_path_ends_wait [OF 1 2 3 4 5, of None "''default''"] show ?thesis
    by (simp add: example_auth_world_def)
qed

text \<open>
  The claim as stated fails: a request for \<^verbatim>\<open>/favicon.ico\<close> followed by the provider's
  redirect to \<^verbatim>\<open>/callback?code=ABC\<close>. The listener does not keep waiting for the second
  request: the call returns \<^verbatim>\<open>False\<close> after the first, and the redirect is never handled.
\<close>

theorem listener_does_not_keep_waiting_counterexample:
  "returned (authenticate example_lib example_auth_world None ''default'') = Some (Inr False) \<and>
   filter is_handled (events (authenticate example_lib example_auth_world None ''default'')) =
     [Handled ''/favicon.ico'' (Inr \<lparr> reply_status = 404, reply_headers = [], reply_page = None \<rparr>)] \<and>
   unhandled (authenticate example_lib example_auth_world None ''default'') = [''/callback?code=ABC'']"
proof -
  have "TIKTOK_CLIENT_KEY example_auth_world \<noteq> []" "TIKTOK_CLIENT_SECRET example_auth_world \<noteq> []"
    "port_free example_auth_world"
    "incoming example_auth_world = ''/favicon.ico'' # [''/callback?code=ABC'']"
    "url_path (urlparse example_lib ''/favicon.ico'') \<noteq> ''/callback''"
    by (simp_all add: example_auth_world_def example_lib_def)
  from other_path_run [OF this, of None "''default''"] show ?thesis
    by auto
qed

text \<open>
  Claim C6. In every call of \<^verbatim>\<open>authenticate\<close> the server is bound at most once and at most
  one request is handled. Either no request is handled and none is taken from those that
  arrive, or the events are: bind, open the browser, handle the first request, close the
  server, and then events that neither handle a request nor bind; the first request is the
  only one taken.
\<close>

theorem single_request:
  "\<exists>r. authenticate lib w g account = r \<and>
     length (filter is_handled (events r)) \<le> 1 \<and>
     length (filter is_bind (events r)) \<le> 1 \<and>
     ((\<forall>e\<in>set (events r). \<not> is_handled e) \<and> unhandled r = incoming w \<or>
      (\<exists>params path reply rest.
         events r = [Bind True, OpenBrowser params, Handled path reply, ServerClose] @ rest \<and>
         (\<forall>e\<in>set rest. \<not> is_handled e \<and> \<not> is_bind e) \<and>
         incoming w = path # unhandled r))"
proof -
  have bind: "length (filter is_bind (events (authenticate lib w g account))) \<le> 1"
  proof -
    from single_request_run [of lib w g account]
    consider "\<forall>e\<in>set (events (authenticate lib w g account)). \<not> is_handled e"
      | params path reply rest where
        "events (authenticate lib w g account) =
           [Bind True, OpenBrowser params, Handled path reply, ServerClose] @ rest"
        "\<forall>e\<in>set rest. \<not> is_handled e \<and> \<not> is_bind e"
      by blast
    then show ?thesis
    proof cases
      case 1
      from generate_pkce_result [of "sha256 lib" "entropy w"] obtain verifier challenge where
        pk: "generate_pkce (sha256 lib) (entropy w) = (verifier, Inr challenge)"
        by blast
      show ?thesis
      proof (cases "TIKTOK_CLIENT_KEY w = [] \<or> TIKTOK_CLIENT_SECRET w = [] \<or> \<not> port_free w \<or> incoming w = []")
        case True
        with pk show ?thesis
          by (auto simp: authenticate_def handle_request_def Let_def)
      next
        case False
        then obtain path rest where inc: "incoming w = path # rest"
          by (cases "incoming w") auto
        with False pk have "\<exists>e\<in>set (events (authenticate lib w g account)). is_handled e"
          by (auto simp: authenticate_def handle_request_def Let_def split: prod.splits option.splits)
        with 1 show ?thesis by blast
      qed
    next
      case 2
      then have "filter is_bind rest = []" by (simp add: filter_empty_conv)
      with 2(1) show ?thesis by simp
    qed
  qed
  have handled: "length (filter is_handled (events (authenticate lib w g account))) \<le> 1"
  proof -
    from single_request_run [of lib w g account]
    consider "\<forall>e\<in>set (events (authenticate lib w g account)). \<not> is_handled e"
      | params path reply rest where
        "events (authenticate lib w g account) =
           [Bind True, OpenBrowser params, Handled path reply, ServerClose] @ rest"
        "\<forall>e\<in>set rest. \<not> is_handled e \<and> \<not> is_bind e"
      by blast
    then show ?thesis
    proof cases
      case 1
      then have "filter is_handled (events (authenticate lib w g account)) = []"
        by (simp add: filter_empty_conv)
      then show ?thesis by simp
    next
      case 2
      then have "filter is_handled rest = []" by (simp add: filter_empty_conv)
      with 2(1) show ?thesis by simp
    qed
  qed
  from single_request_run [of lib w g account] bind handled show ?thesis
    by blast
qed

text \<open>Two requests arrive: one is handled, the other is left.\<close>

theorem single_request_witness:
  "length (filter is_handled (events (authenticate example_lib example_auth_world None ''default''))) \<le> 1 \<and>
   length (filter is_bind (events (authenticate example_lib example_auth_world None ''default''))) \<le> 1 \<and>
   (incoming example_auth_world =
      ''/favicon.ico'' # unhandled (authenticate example_lib example_auth_world None ''default''))"
proof -
  have "TIKTOK_CLIENT_KEY example_auth_world \<noteq> []" "TIKTOK_CLIENT_SECRET example_auth_world \<noteq> []"
    "port_free example_auth_world"
    "incoming example_auth_world = ''/favicon.ico'' # [''/callback?code=ABC'']"
    "url_path (urlparse example_lib ''/favicon.ico'') \<noteq> ''/callback''"
    by (simp_all add: example_auth_world_def example_lib_def)
  from other_path_run [OF this, of None "''default''"]
  have "incoming example_auth_world =
      ''/favicon.ico'' # unhandled (authenticate example_lib example_auth_world None ''default'')"
    by (auto simp: example_auth_world_def)
  with single_request [of example_lib example_auth_world None "''default''"] show ?thesis
    by simp
qed


text \<open>
  Claim C8. For a request to the callback path, with \<open>params\<close> what \<^verbatim>\<open>parse_qs\<close> returns for
  its query: if \<open>params\<close> has a \<^verbatim>\<open>code\<close>, the session captures its first value and the reply is
  200; if it has no \<^verbatim>\<open>code\<close> and has an \<^verbatim>\<open>error\<close>, the session captures the error's first value,
  its code is absent, and the reply is 400. A session that starts empty, as \<^verbatim>\<open>authenticate\<close>
  creates it, never holds both a code and an error after the request.
\<close>

theorem callback_captures:
  assumes "url_path (urlparse lib path) = ''/callback''"
      and "params = parse_qs lib (url_query (urlparse lib path))"
  shows "(map_of params ''code'' = Some (c # cs) \<longrightarrow>
            do_GET lib server path =
              (server \<lparr> auth_code := Some c \<rparr>,
               Inr \<lparr> reply_status = 200,
                     reply_headers = [(''Content-type'', ''text/html; charset=utf-8'')],
                     reply_page = Some SuccessPage \<rparr>)) \<and>
         (map_of params ''code'' = None \<and> map_of params ''error'' = Some (e # es) \<longrightarrow>
            do_GET lib server path =
              (server \<lparr> auth_code := None, error := Some e \<rparr>,
               Inr \<lparr> reply_status = 400,
                     reply_headers = [(''Content-type'', ''text/html; charset=utf-8'')],
                     reply_page = Some (ErrorPage e) \<rparr>)) \<and>
         (auth_code (fst (do_GET lib \<lparr> auth_code = None, error = None \<rparr> path)) = None \<or>
          error (fst (do_GET lib \<lparr> auth_code = None, error = None \<rparr> path)) = None)"
  using assms
  by (auto simp: do_GET_def Let_def split: option.splits list.splits)

text \<open>The requests \<^verbatim>\<open>/callback?code=ABC\<close> and \<^verbatim>\<open>/callback?error=access_denied\<close>.\<close>

theorem callback_captures_witness:
  "do_GET example_lib \<lparr> auth_code = None, error = None \<rparr> ''/callback?code=ABC'' =
     (\<lparr> auth_code = Some ''ABC'', error = None \<rparr>,
      Inr \<lparr> reply_status = 200,
            reply_headers = [(''Content-type'', ''text/html; charset=utf-8'')],
            reply_page = Some SuccessPage \<rparr>) \<and>
   do_GET example_lib \<lparr> auth_code = None, error = None \<rparr> ''/callback?error=access_denied'' =
     (\<lparr> auth_code = None, error = Some ''access_denied'' \<rparr>,
      Inr \<lparr> reply_status = 400,
            reply_headers = [(''Content-type'', ''text/html; charset=utf-8'')],
            reply_page = Some (ErrorPage ''access_denied'') \<rparr>)"
proof
  have "url_path (urlparse example_lib ''/callback?code=ABC'') = ''/callback''"
    "[(''code'', [''ABC''])] = parse_qs example_lib (url_query (urlparse example_lib ''/callback?code=ABC''))"
    by (simp_all add: example_lib_def)
  from callback_captures [OF this, of "''ABC''" "[]" "\<lparr> auth_code = None, error = None \<rparr>"]
  show "do_GET example_lib \<lparr> auth_code = None, error = None \<rparr> ''/callback?code=ABC'' =
     (\<lparr> auth_code = Some ''ABC'', error = None \<rparr>,
      Inr \<lparr> reply_status = 200,
            reply_headers = [(''Content-type'', ''text/html; charset=utf-8'')],
            reply_page = Some SuccessPage \<rparr>)"
    by simp
next
  have "url_path (urlparse example_lib ''/callback?error=access_denied'') = ''/callback''"
    "[(''error'', [''access_denied''])] =
       parse_qs example_lib (url_query (urlparse example_lib ''/callback?error=access_denied''))"
    by (simp_all add: example_lib_def)
  from callback_captures [OF this, of _ _ "\<lparr> auth_code = None, error = None \<rparr>" "''access_denied''" "[]"]
  show "do_GET example_lib \<lparr> auth_code = None, error = None \<rparr> ''/callback?error=access_denied'' =
     (\<lparr> auth_code = None, error = Some ''access_denied'' \<rparr>,
      Inr \<lparr> reply_status = 400,
            reply_headers = [(''Content-type'', ''text/html; charset=utf-8'')],
            reply_page = Some (ErrorPage ''access_denied'') \<rparr>)"
    by simp
qed

text \<open>
  Claim C9. When the client key or the client secret is empty, \<^verbatim>\<open>authenticate\<close> returns
  \<^verbatim>\<open>False\<close> at once: it has no event (no port bound, no browser opened, no request handled
  or sent), the global verifier is what it was (no PKCE pair generated), the token file is
  untouched, and nothing is tried again.
\<close>

theorem missing_credentials_fail_fast:
  assumes "TIKTOK_CLIENT_KEY w = [] \<or> TIKTOK_CLIENT_SECRET w = []"
  shows "authenticate lib w g account =
           \<lparr> returned = Some (Inr False), events = [], code_verifier = g,
             tokens_after = tokens_file w, unhandled = incoming w \<rparr>"
  using assms by (simp add: authenticate_def)

text \<open>The example environment without a client secret.\<close>

theorem missing_credentials_fail_fast_witness:
  "authenticate example_lib (example_auth_world \<lparr> TIKTOK_CLIENT_SECRET := [] \<rparr>) None ''default'' =
     \<lparr> returned = Some (Inr False), events = [], code_verifier = None,
       tokens_after = Stored stored_tokens,
       unhandled = [''/favicon.ico'', ''/callback?code=ABC''] \<rparr>"
proof -
  have "TIKTOK_CLIENT_KEY (example_auth_world \<lparr> TIKTOK_CLIENT_SECRET := [] \<rparr>) = [] \<or>
        TIKTOK_CLIENT_SECRET (example_auth_world \<lparr> TIKTOK_CLIENT_SECRET := [] \<rparr>) = []"
    by simp
  from missing_credentials_fail_fast [OF this, of example_lib None "''default''"] show ?thesis
    by (simp add: example_auth_world_def)
qed

section \<open>Properties of the token refresh\<close>

lemma save_tokens_cases:
  "save_tokens t = (None, Stored t) \<and> dumpable t \<or>
   save_tokens t = (Some UnicodeEncodeError, Damaged) \<and> \<not> dumpable t"
  by (simp add: save_tokens_def)








end
